theory Spec2Isabelle
  imports Complex_Main "HOL-Library.Sublist"
begin

section \<open>Data of \<open>src/main.ts\<close>\<close>

text \<open>
  The script talks to two collaborators: a Bitcoin Core node (\<open>NODE_CLIENT\<close>, an
  \<open>RPCClient\<close>) and the sponsor (\<open>faas\<close>, a \<open>Faas\<close> client). Neither library is part of
  the repository, so both are parameters of the model: records of functions that read and
  update an abstract world \<open>'w\<close> and answer with a reply. A JavaScript \<open>Number\<close> is only
  carried from one call to the next (no arithmetic is done on it), so amounts are \<open>rat\<close> and
  counters are \<open>nat\<close>.
\<close>

text \<open>An element of the array returned by \<open>listunspent\<close>; the script reads these three fields.\<close>

record utxo =
  u_txid :: string
  u_vout :: nat
  u_amount :: rat

record TransactionInput =
  i_txid :: string
  i_vout :: nat

text \<open>A \<open>TransactionOutput\<close> is the object \<open>{[address]: amount}\<close>: one key and its value.\<close>

type_synonym TransactionOutput = "string \<times> rat"

text \<open>The object returned by \<open>walletprocesspsbt\<close>; the script reads its field \<open>psbt\<close>.\<close>

record processed =
  w_psbt :: string
  w_complete :: bool

text \<open>
  Modelled from the spec: the declarations of the types \<open>PSBT\<close> and \<open>PSBTNI\<close> of the library
  \<open>@frictionless-money/faas\<close> are missing. The spec says that records carry asset, id,
  state, blob and txid, and that txid is present only once broadcast; the script reads the
  fields \<open>asset\<close>, \<open>id\<close>, \<open>state\<close>, \<open>psbt\<close> and \<open>txid\<close>.
\<close>

record PSBT =
  p_asset :: string
  p_id :: string
  p_state :: string
  p_psbt :: string
  p_txid :: "string option"

type_synonym PSBTNI = PSBT

text \<open>
  What the script can throw: \<open>new Error(message)\<close>, the \<open>TypeError\<close> of the runtime when a
  property of \<open>undefined\<close> is read, and the \<open>AssertionError\<close> of \<open>deepStrictEqual\<close>. A
  collaborator that rejects does so with a message, which the script receives as an
  \<open>Error\<close>.
\<close>

datatype error = Error string | TypeError string | AssertionError

type_synonym 'a reply = "string + 'a"

text \<open>An argument of \<open>console.log\<close> or \<open>console.error\<close>; \<open>LMessage e\<close> is \<open>e.message\<close>.\<close>

datatype logval = LStr string | LNum rat | LIdx nat | LTxid "string option" | LMessage error

text \<open>
  Everything a run does that can be seen from outside, in order: each call to a
  collaborator with its arguments and the reply it got, the construction of the \<open>Faas\<close>
  client, and each line written to the console.
\<close>

datatype event =
    Listunspent nat "string list" string "utxo list reply"
  | Createpsbt "TransactionInput list" "TransactionOutput list" nat bool "string reply"
  | Walletprocesspsbt string bool string bool string "processed reply"
  | NewFaas string string
  | ReadApiKey "string reply"
  | ReadCredit "rat reply"
  | ReadFee string "rat reply"
  | ReadRate string "rat reply"
  | CreatePSBT string string "PSBT reply"
  | ReadPSBT string string "PSBT reply"
  | UpdatePSBT string string string "PSBT reply"
  | ReadPSBTs "PSBT list reply"
  | CreatePSBTNI string string "PSBTNI reply"
  | ReadPSBTNI string string "PSBTNI reply"
  | ReadPSBTNIs "PSBTNI list reply"
  | ConsoleLog "logval list"
  | ConsoleError "logval list"

text \<open>The methods of \<open>RPCClient\<close> the script calls; the last string is the wallet label.\<close>

record 'w RPCClient =
  listunspent :: "nat \<Rightarrow> string list \<Rightarrow> string \<Rightarrow> 'w \<Rightarrow> utxo list reply \<times> 'w"
  createpsbt ::
    "TransactionInput list \<Rightarrow> TransactionOutput list \<Rightarrow> nat \<Rightarrow> bool \<Rightarrow> 'w \<Rightarrow> string reply \<times> 'w"
  walletprocesspsbt ::
    "string \<Rightarrow> bool \<Rightarrow> string \<Rightarrow> bool \<Rightarrow> string \<Rightarrow> 'w \<Rightarrow> processed reply \<times> 'w"

text \<open>The methods of \<open>Faas\<close> the script calls; \<open>url\<close> and \<open>key\<close> are local getters.\<close>

record 'w Faas =
  url :: string
  key :: string
  readApiKey :: "'w \<Rightarrow> string reply \<times> 'w"
  readCredit :: "'w \<Rightarrow> rat reply \<times> 'w"
  readFee :: "string \<Rightarrow> 'w \<Rightarrow> rat reply \<times> 'w"
  readRate :: "string \<Rightarrow> 'w \<Rightarrow> rat reply \<times> 'w"
  createPSBT :: "string \<Rightarrow> string \<Rightarrow> 'w \<Rightarrow> PSBT reply \<times> 'w"
  readPSBT :: "string \<Rightarrow> string \<Rightarrow> 'w \<Rightarrow> PSBT reply \<times> 'w"
  updatePSBT :: "string \<Rightarrow> string \<Rightarrow> string \<Rightarrow> 'w \<Rightarrow> PSBT reply \<times> 'w"
  readPSBTs :: "'w \<Rightarrow> PSBT list reply \<times> 'w"
  createPSBTNI :: "string \<Rightarrow> string \<Rightarrow> 'w \<Rightarrow> PSBTNI reply \<times> 'w"
  readPSBTNI :: "string \<Rightarrow> string \<Rightarrow> 'w \<Rightarrow> PSBTNI reply \<times> 'w"
  readPSBTNIs :: "'w \<Rightarrow> PSBTNI list reply \<times> 'w"

text \<open>
  What the module takes from outside: the node client built at load time, the constants
  \<open>ASSET_BTC\<close> and \<open>PAIR_BTC_USD\<close> and the constructor of \<open>Faas\<close>, all three imported from
  the sponsor's library.
\<close>

record 'w module =
  NODE_CLIENT :: "'w RPCClient"
  ASSET_BTC :: string
  PAIR_BTC_USD :: string
  new_Faas :: "string \<Rightarrow> string \<Rightarrow> 'w Faas"

definition OUTPUT_ADDRESS :: string where
  "OUTPUT_ADDRESS = ''???''"

definition WALLET_LABEL :: string where
  "WALLET_LABEL = ''???''"

definition FAAS_URL :: string where
  "FAAS_URL = ''https://graphql.frictionless.money/''"

definition FAAS_KEY :: string where
  "FAAS_KEY = ''???''"

text \<open>\<open>Object.values(UserChoice)\<close>.\<close>

definition UserChoice_values :: "string list" where
  "UserChoice_values = [''basic'', ''psbt'', ''psbtni'']"

section \<open>Promises as programs\<close>

text \<open>
  An async function is a program: from the world it gives its outcome (\<open>Inl\<close> a rejection,
  \<open>Inr\<close> the value), the events it caused, and the world afterwards.
\<close>

type_synonym ('w, 'a) prog = "'w \<Rightarrow> (error + 'a) \<times> event list \<times> 'w"

definition ret :: "'a \<Rightarrow> ('w, 'a) prog" where
  "ret x w = (Inr x, [], w)"

definition throw :: "error \<Rightarrow> ('w, 'a) prog" where
  "throw e w = (Inl e, [], w)"

text \<open>\<open>const x = await m; f(x)\<close>, and \<open>m.then(f)\<close>: a rejection of \<open>m\<close> skips \<open>f\<close>.\<close>

definition bindE :: "('w, 'a) prog \<Rightarrow> ('a \<Rightarrow> ('w, 'b) prog) \<Rightarrow> ('w, 'b) prog" where
  "bindE m f w =
     (case m w of
        (Inl e, t, w') \<Rightarrow> (Inl e, t, w')
      | (Inr x, t, w') \<Rightarrow> (case f x w' of (r, t', w'') \<Rightarrow> (r, t @ t', w'')))"

text \<open>\<open>m.catch(h)\<close>.\<close>

definition catch :: "('w, 'a) prog \<Rightarrow> (error \<Rightarrow> ('w, 'a) prog) \<Rightarrow> ('w, 'a) prog" where
  "catch m h w =
     (case m w of
        (Inl e, t, w') \<Rightarrow> (case h e w' of (r, t', w'') \<Rightarrow> (r, t @ t', w''))
      | (Inr x, t, w') \<Rightarrow> (Inr x, t, w'))"

text \<open>A call to a collaborator: the reply is recorded, a rejection becomes an \<open>Error\<close>.\<close>

definition await :: "('w \<Rightarrow> 'a reply \<times> 'w) \<Rightarrow> ('a reply \<Rightarrow> event) \<Rightarrow> ('w, 'a) prog" where
  "await call ev w = (case call w of (rep, w') \<Rightarrow> (map_sum Error id rep, [ev rep], w'))"

definition emit :: "event \<Rightarrow> ('w, unit) prog" where
  "emit ev w = (Inr (), [ev], w)"

definition console_log :: "logval list \<Rightarrow> ('w, unit) prog" where
  "console_log args = emit (ConsoleLog args)"

definition console_error :: "logval list \<Rightarrow> ('w, unit) prog" where
  "console_error args = emit (ConsoleError args)"

text \<open>\<open>deepStrictEqual(actual, expected)\<close> of \<open>node:assert/strict\<close>.\<close>

definition deepStrictEqual :: "'a \<Rightarrow> 'a \<Rightarrow> ('w, unit) prog" where
  "deepStrictEqual actual expected = (if actual = expected then ret () else throw AssertionError)"

text \<open>\<open>xs.forEach((x, i) => f(x, i))\<close>, from index \<open>i\<close> on.\<close>

fun forEach :: "('a \<Rightarrow> nat \<Rightarrow> ('w, unit) prog) \<Rightarrow> 'a list \<Rightarrow> nat \<Rightarrow> ('w, unit) prog" where
  "forEach f [] i = ret ()"
| "forEach f (x # xs) i = bindE (f x i) (\<lambda>_. forEach f xs (Suc i))"

section \<open>The functions of \<open>src/main.ts\<close>\<close>

text \<open>
  \<open>getPSBT(sign, sighashtype = "ALL")\<close>. Reading \<open>unspentUTXOs[0].txid\<close> of an empty array
  reads a property of \<open>undefined\<close>, which throws a \<open>TypeError\<close>.
\<close>

definition undefined_txid :: string where
  "undefined_txid =
     ''Cannot read properties of undefined (reading '' @ [CHR 0x27] @ ''txid'' @ [CHR 0x27] @ '')''"

definition getPSBT :: "'w module \<Rightarrow> bool \<Rightarrow> string option \<Rightarrow> ('w, string) prog" where
  "getPSBT m sign sighashtype_arg =
     (let sighashtype = (case sighashtype_arg of None \<Rightarrow> ''ALL'' | Some t \<Rightarrow> t) in
      bindE (await (listunspent (NODE_CLIENT m) 0 [OUTPUT_ADDRESS] WALLET_LABEL)
                   (Listunspent 0 [OUTPUT_ADDRESS] WALLET_LABEL)) (\<lambda>unspentUTXOs.
      case unspentUTXOs of
        [] \<Rightarrow> throw (TypeError undefined_txid)
      | u # _ \<Rightarrow>
          (let inputs = [\<lparr>i_txid = u_txid u, i_vout = u_vout u\<rparr>];
               outputs = [(OUTPUT_ADDRESS, u_amount u)] in
           bindE (await (createpsbt (NODE_CLIENT m) inputs outputs 0 True)
                        (Createpsbt inputs outputs 0 True)) (\<lambda>customerPSBT.
           bindE (await (walletprocesspsbt (NODE_CLIENT m) customerPSBT sign sighashtype True
                           WALLET_LABEL)
                        (Walletprocesspsbt customerPSBT sign sighashtype True WALLET_LABEL))
             (\<lambda>processedCustomerPSBT.
           ret (w_psbt processedCustomerPSBT))))))"

text \<open>\<open>processPSBT(psbt, sign, sighashtype = "ALL")\<close>.\<close>

definition processPSBT :: "'w module \<Rightarrow> string \<Rightarrow> bool \<Rightarrow> string option \<Rightarrow> ('w, string) prog" where
  "processPSBT m blob sign sighashtype_arg =
     (let sighashtype = (case sighashtype_arg of None \<Rightarrow> ''ALL'' | Some t \<Rightarrow> t) in
      bindE (await (walletprocesspsbt (NODE_CLIENT m) blob sign sighashtype True WALLET_LABEL)
                   (Walletprocesspsbt blob sign sighashtype True WALLET_LABEL)) (\<lambda>processedPSBT.
      ret (w_psbt processedPSBT)))"

text \<open>The callback given to \<open>then\<close> in \<open>psbt\<close>, lines 130 to 154.\<close>

definition psbt_then :: "'w module \<Rightarrow> 'w Faas \<Rightarrow> string \<Rightarrow> ('w, unit) prog" where
  "psbt_then m faas originalPSBT =
     bindE (console_log [LStr ''   '', LStr ''Submitting Candidate TX'']) (\<lambda>_.
     bindE (await (createPSBT faas (ASSET_BTC m) originalPSBT)
                  (CreatePSBT (ASSET_BTC m) originalPSBT)) (\<lambda>feeIncludedPSBT.
     bindE (console_log [LStr ''   '', LStr ''Retrieving Candidate TX'']) (\<lambda>_.
     bindE (await (readPSBT faas (p_asset feeIncludedPSBT) (p_id feeIncludedPSBT))
                  (ReadPSBT (p_asset feeIncludedPSBT) (p_id feeIncludedPSBT))) (\<lambda>readPSBT1.
     bindE (console_log [LStr ''   '', LStr ''Testing TX Equality'']) (\<lambda>_.
     bindE (deepStrictEqual readPSBT1 feeIncludedPSBT) (\<lambda>_.
     bindE (console_log [LStr ''   '', LStr ''Signing TX with Added Fees'']) (\<lambda>_.
     bindE (processPSBT m (p_psbt feeIncludedPSBT) True (Some ''ALL'')) (\<lambda>signedPSBT.
     bindE (console_log [LStr ''   '', LStr ''Submitting Customer-Signed TX'']) (\<lambda>_.
     bindE (await (updatePSBT faas (ASSET_BTC m) (p_id feeIncludedPSBT) signedPSBT)
                  (UpdatePSBT (ASSET_BTC m) (p_id feeIncludedPSBT) signedPSBT)) (\<lambda>broadcastPSBT.
     bindE (console_log [LStr ''   '', LStr ''Retrieving Final TX'']) (\<lambda>_.
     bindE (await (readPSBT faas (p_asset broadcastPSBT) (p_id broadcastPSBT))
                  (ReadPSBT (p_asset broadcastPSBT) (p_id broadcastPSBT))) (\<lambda>readPSBT2.
     bindE (console_log [LStr ''   '', LStr ''Testing TX Equality'']) (\<lambda>_.
     deepStrictEqual readPSBT2 broadcastPSBT)))))))))))))"

text \<open>\<open>psbt(faas)\<close>: the interactive flow.\<close>

definition psbt :: "'w module \<Rightarrow> 'w Faas \<Rightarrow> ('w, unit) prog" where
  "psbt m faas =
     bindE (console_log [LStr ''Starting FaaS in Interactive Mode (PSBT)'']) (\<lambda>_.
     catch (bindE (getPSBT m False None) (psbt_then m faas))
           (\<lambda>e. console_error [LStr ''PSBT failed:'', LMessage e]))"

text \<open>The callback given to \<open>then\<close> in \<open>psbtni\<close>, lines 171 to 179.\<close>

definition psbtni_then :: "'w module \<Rightarrow> 'w Faas \<Rightarrow> string \<Rightarrow> ('w, unit) prog" where
  "psbtni_then m faas signedPSBTNI =
     bindE (console_log [LStr ''   '', LStr ''Submitting Pre-Signed TX (ALL|ANYONECANPAY)''])
       (\<lambda>_.
     bindE (await (createPSBTNI faas (ASSET_BTC m) signedPSBTNI)
                  (CreatePSBTNI (ASSET_BTC m) signedPSBTNI)) (\<lambda>broadcastPSBTNI.
     bindE (console_log [LStr ''   '', LStr ''Retrieving TX'']) (\<lambda>_.
     bindE (await (readPSBTNI faas (p_asset broadcastPSBTNI) (p_id broadcastPSBTNI))
                  (ReadPSBTNI (p_asset broadcastPSBTNI) (p_id broadcastPSBTNI))) (\<lambda>readPSBTNI1.
     bindE (console_log [LStr ''   '', LStr ''Testing TX Equality'']) (\<lambda>_.
     deepStrictEqual readPSBTNI1 broadcastPSBTNI)))))"

text \<open>\<open>psbtni(faas)\<close>: the non-interactive flow.\<close>

definition psbtni :: "'w module \<Rightarrow> 'w Faas \<Rightarrow> ('w, unit) prog" where
  "psbtni m faas =
     bindE (console_log [LStr ''Starting FaaS in Non-Interactive Mode (PSBTNI)'']) (\<lambda>_.
     catch (bindE (getPSBT m True (Some ''ALL|ANYONECANPAY'')) (psbtni_then m faas))
           (\<lambda>e. console_error [LStr ''PSBTNI failed:'', LMessage e]))"

text \<open>The two lines printed for each record of a listing.\<close>

definition show_record :: "PSBT \<Rightarrow> nat \<Rightarrow> ('w, unit) prog" where
  "show_record r i =
     bindE (console_log [LIdx i, LStr '' '', LStr (p_asset r), LStr '':'', LStr (p_id r),
                         LStr '':'', LStr (p_state r)]) (\<lambda>_.
     console_log [LStr ''   '', LTxid (p_txid r)])"

text \<open>
  \<open>run(choice)\<close>. The argument comes from the command line, so at run time it is any string,
  or \<open>undefined\<close> (\<open>None\<close>) when there is none.
\<close>

definition run :: "'w module \<Rightarrow> string option \<Rightarrow> ('w, unit) prog" where
  "run m choice =
     (if choice \<notin> set (map Some UserChoice_values) then throw (Error ''Invalid user choice.'')
      else
        bindE (emit (NewFaas FAAS_URL FAAS_KEY)) (\<lambda>_.
        let faas = new_Faas m FAAS_URL FAAS_KEY in
        bindE (deepStrictEqual (url faas) FAAS_URL) (\<lambda>_.
        bindE (deepStrictEqual (key faas) FAAS_KEY) (\<lambda>_.
        bindE (await (readApiKey faas) ReadApiKey) (\<lambda>apiKey.
        bindE (deepStrictEqual apiKey FAAS_KEY) (\<lambda>_.
        bindE (await (readCredit faas) ReadCredit) (\<lambda>myCredit.
        bindE (console_log [LStr ''Available Credit          :'', LNum myCredit]) (\<lambda>_.
        bindE (await (readFee faas (ASSET_BTC m)) (ReadFee (ASSET_BTC m))) (\<lambda>currentBitcoinFee.
        bindE (console_log [LStr ''Current BTC Fee (s/vB)    :'', LNum currentBitcoinFee]) (\<lambda>_.
        bindE (await (readRate faas (PAIR_BTC_USD m)) (ReadRate (PAIR_BTC_USD m)))
          (\<lambda>currentBitcoinRate.
        bindE (console_log [LStr ''Current BTC Rate (USD/BTC):'', LNum currentBitcoinRate]) (\<lambda>_.
        bindE (if choice = Some ''psbt'' then psbt m faas else ret ()) (\<lambda>_.
        bindE (await (readPSBTs faas) ReadPSBTs) (\<lambda>readPSBTs1.
        bindE (console_log [LStr ''PSBTs'']) (\<lambda>_.
        bindE (forEach show_record readPSBTs1 0) (\<lambda>_.
        bindE (if choice = Some ''psbtni'' then psbtni m faas else ret ()) (\<lambda>_.
        bindE (await (readPSBTNIs faas) ReadPSBTNIs) (\<lambda>readPSBTNIs1.
        bindE (console_log [LStr ''PSBTNIs'']) (\<lambda>_.
        forEach show_record readPSBTNIs1 0)))))))))))))))))))"

text \<open>
  The last statement of the module: \<open>run(process.argv.slice()[2]).then(...).catch(...)\<close>.
  It returns what was seen and the world afterwards.
\<close>

definition main :: "'w module \<Rightarrow> string list \<Rightarrow> 'w \<Rightarrow> event list \<times> 'w" where
  "main m argv w =
     (let choice = (if 2 < length argv then Some (argv ! 2) else None) in
      case catch (bindE (run m choice) (\<lambda>_. console_log [LStr ''Done.'']))
                 (\<lambda>e. console_log [LMessage e]) w of
        (_, t, w') \<Rightarrow> (t, w'))"

section \<open>Observing a run\<close>

definition outcome_of :: "('w, 'a) prog \<Rightarrow> 'w \<Rightarrow> error + 'a" where
  "outcome_of p w = fst (p w)"

definition events_of :: "('w, 'a) prog \<Rightarrow> 'w \<Rightarrow> event list" where
  "events_of p w = fst (snd (p w))"

text \<open>
  The lines of \<open>console.log\<close> only tell the operator how far the run is. The steps of a run
  are its other events: the calls to the collaborators, the construction of the client
  and the failure reports of \<open>console.error\<close>.
\<close>

fun is_log :: "event \<Rightarrow> bool" where
  "is_log (ConsoleLog _) = True"
| "is_log _ = False"

definition steps :: "event list \<Rightarrow> event list" where
  "steps evs = filter (\<lambda>ev. \<not> is_log ev) evs"

text \<open>The message of a call that the collaborator rejected.\<close>

fun rejection :: "event \<Rightarrow> string option" where
  "rejection (Listunspent _ _ _ (Inl msg)) = Some msg"
| "rejection (Createpsbt _ _ _ _ (Inl msg)) = Some msg"
| "rejection (Walletprocesspsbt _ _ _ _ _ (Inl msg)) = Some msg"
| "rejection (ReadApiKey (Inl msg)) = Some msg"
| "rejection (ReadCredit (Inl msg)) = Some msg"
| "rejection (ReadFee _ (Inl msg)) = Some msg"
| "rejection (ReadRate _ (Inl msg)) = Some msg"
| "rejection (CreatePSBT _ _ (Inl msg)) = Some msg"
| "rejection (ReadPSBT _ _ (Inl msg)) = Some msg"
| "rejection (UpdatePSBT _ _ _ (Inl msg)) = Some msg"
| "rejection (ReadPSBTs (Inl msg)) = Some msg"
| "rejection (CreatePSBTNI _ _ (Inl msg)) = Some msg"
| "rejection (ReadPSBTNI _ _ (Inl msg)) = Some msg"
| "rejection (ReadPSBTNIs (Inl msg)) = Some msg"
| "rejection _ = None"

text \<open>The method that a call event is a call of.\<close>

fun call_name :: "event \<Rightarrow> string option" where
  "call_name (Listunspent _ _ _ _) = Some ''listunspent''"
| "call_name (Createpsbt _ _ _ _ _) = Some ''createpsbt''"
| "call_name (Walletprocesspsbt _ _ _ _ _ _) = Some ''walletprocesspsbt''"
| "call_name (ReadApiKey _) = Some ''readApiKey''"
| "call_name (ReadCredit _) = Some ''readCredit''"
| "call_name (ReadFee _ _) = Some ''readFee''"
| "call_name (ReadRate _ _) = Some ''readRate''"
| "call_name (CreatePSBT _ _ _) = Some ''createPSBT''"
| "call_name (ReadPSBT _ _ _) = Some ''readPSBT''"
| "call_name (UpdatePSBT _ _ _ _) = Some ''updatePSBT''"
| "call_name (ReadPSBTs _) = Some ''readPSBTs''"
| "call_name (CreatePSBTNI _ _ _) = Some ''createPSBTNI''"
| "call_name (ReadPSBTNI _ _ _) = Some ''readPSBTNI''"
| "call_name (ReadPSBTNIs _) = Some ''readPSBTNIs''"
| "call_name _ = None"

text \<open>The calls of \<open>psbt\<close> and of \<open>psbtni\<close>, in the order of the source text.\<close>

definition psbt_calls :: "string list" where
  "psbt_calls = [''listunspent'', ''createpsbt'', ''walletprocesspsbt'', ''createPSBT'',
     ''readPSBT'', ''walletprocesspsbt'', ''updatePSBT'', ''readPSBT'']"

definition psbtni_calls :: "string list" where
  "psbtni_calls = [''listunspent'', ''createpsbt'', ''walletprocesspsbt'', ''createPSBTNI'',
     ''readPSBTNI'']"

text \<open>The record with which the sponsor answered a submission.\<close>

fun response :: "event \<Rightarrow> PSBT option" where
  "response (CreatePSBT _ _ (Inr r)) = Some r"
| "response (UpdatePSBT _ _ _ (Inr r)) = Some r"
| "response (CreatePSBTNI _ _ (Inr r)) = Some r"
| "response _ = None"


section \<open>Example collaborators\<close>

text \<open>
  A wallet with one coin of amount 0.5, and a sponsor that keeps the last record it
  answered with; the world is that record.
\<close>

definition demo_node :: "PSBT option RPCClient" where
  "demo_node =
     \<lparr>listunspent = (\<lambda>minconf addresses label w.
        (Inr [\<lparr>u_txid = ''c0ffee'', u_vout = 1, u_amount = 1 / 2\<rparr>], w)),
      createpsbt = (\<lambda>inputs outputs locktime replaceable w. (Inr ''candidate'', w)),
      walletprocesspsbt = (\<lambda>blob sign sighashtype bip32derivs label w.
        (Inr \<lparr>w_psbt = (if sign then blob @ ''+sig('' @ sighashtype @ '')'' else blob),
              w_complete = False\<rparr>, w))\<rparr>"

definition demo_faas :: "string \<Rightarrow> string \<Rightarrow> PSBT option Faas" where
  "demo_faas u k =
     \<lparr>url = u, key = k,
      readApiKey = (\<lambda>w. (Inr k, w)),
      readCredit = (\<lambda>w. (Inr 100, w)),
      readFee = (\<lambda>asset w. (Inr 2, w)),
      readRate = (\<lambda>pair w. (Inr 50000, w)),
      createPSBT = (\<lambda>asset blob w.
        (let r = \<lparr>p_asset = asset, p_id = ''1'', p_state = ''FeeAdded'',
                   p_psbt = blob @ ''+fee'', p_txid = None\<rparr>
         in (Inr r, Some r))),
      readPSBT = (\<lambda>asset ident w.
        (case w of None \<Rightarrow> (Inl ''not found'', w) | Some r \<Rightarrow> (Inr r, w))),
      updatePSBT = (\<lambda>asset ident blob w.
        (let r = \<lparr>p_asset = asset, p_id = ident, p_state = ''Broadcast'',
                   p_psbt = blob, p_txid = Some ''f00d''\<rparr>
         in (Inr r, Some r))),
      readPSBTs = (\<lambda>w. (Inr (case w of None \<Rightarrow> [] | Some r \<Rightarrow> [r]), w)),
      createPSBTNI = (\<lambda>asset blob w.
        (let r = \<lparr>p_asset = asset, p_id = ''1'', p_state = ''Broadcast'',
                   p_psbt = blob @ ''+fee'', p_txid = Some ''f00d''\<rparr>
         in (Inr r, Some r))),
      readPSBTNI = (\<lambda>asset ident w.
        (case w of None \<Rightarrow> (Inl ''not found'', w) | Some r \<Rightarrow> (Inr r, w))),
      readPSBTNIs = (\<lambda>w. (Inr [], w))\<rparr>"

definition demo :: "PSBT option module" where
  "demo = \<lparr>NODE_CLIENT = demo_node, ASSET_BTC = ''btc'', PAIR_BTC_USD = ''btc_usd'',
           new_Faas = demo_faas\<rparr>"

text \<open>A sponsor whose re-fetched record differs from what it answered.\<close>

definition tampering_faas :: "string \<Rightarrow> string \<Rightarrow> PSBT option Faas" where
  "tampering_faas u k = (demo_faas u k)
     \<lparr>readPSBT := (\<lambda>asset ident w.
        (case w of None \<Rightarrow> (Inl ''not found'', w)
         | Some r \<Rightarrow> (Inr (r\<lparr>p_psbt := ''redirected''\<rparr>), w))),
      readPSBTNI := (\<lambda>asset ident w.
        (case w of None \<Rightarrow> (Inl ''not found'', w)
         | Some r \<Rightarrow> (Inr (r\<lparr>p_psbt := ''redirected''\<rparr>), w)))\<rparr>"

definition tampering :: "PSBT option module" where
  "tampering = demo\<lparr>new_Faas := tampering_faas\<rparr>"

text \<open>A sponsor that replaces the blob it was given, and re-fetches what it answered.\<close>

definition rewriting_faas :: "string \<Rightarrow> string \<Rightarrow> PSBT option Faas" where
  "rewriting_faas u k = (demo_faas u k)
     \<lparr>createPSBT := (\<lambda>asset blob w.
        (let r = \<lparr>p_asset = asset, p_id = ''1'', p_state = ''FeeAdded'',
                   p_psbt = ''pay-the-sponsor'', p_txid = None\<rparr>
         in (Inr r, Some r)))\<rparr>"

definition rewriting :: "PSBT option module" where
  "rewriting = demo\<lparr>new_Faas := rewriting_faas\<rparr>"

text \<open>A sponsor that accepts the signed blob and leaves the record in state FeeAdded.\<close>

definition stalling_faas :: "string \<Rightarrow> string \<Rightarrow> PSBT option Faas" where
  "stalling_faas u k = (demo_faas u k)
     \<lparr>updatePSBT := (\<lambda>asset ident blob w.
        (let r = \<lparr>p_asset = asset, p_id = ident, p_state = ''FeeAdded'',
                   p_psbt = blob, p_txid = None\<rparr>
         in (Inr r, Some r)))\<rparr>"

definition stalling :: "PSBT option module" where
  "stalling = demo\<lparr>new_Faas := stalling_faas\<rparr>"

text \<open>A sponsor that files the signed transaction under a new id.\<close>

definition renumbering_faas :: "string \<Rightarrow> string \<Rightarrow> PSBT option Faas" where
  "renumbering_faas u k = (demo_faas u k)
     \<lparr>updatePSBT := (\<lambda>asset ident blob w.
        (let r = \<lparr>p_asset = asset, p_id = ''2'', p_state = ''Broadcast'',
                   p_psbt = blob, p_txid = Some ''f00d''\<rparr>
         in (Inr r, Some r)))\<rparr>"

definition renumbering :: "PSBT option module" where
  "renumbering = demo\<lparr>new_Faas := renumbering_faas\<rparr>"

text \<open>A sponsor that cannot be reached for a submission.\<close>

definition offline_faas :: "string \<Rightarrow> string \<Rightarrow> PSBT option Faas" where
  "offline_faas u k = (demo_faas u k)
     \<lparr>createPSBT := (\<lambda>asset blob w. (Inl ''network down'', w)),
      createPSBTNI := (\<lambda>asset blob w. (Inl ''network down'', w))\<rparr>"

definition offline :: "PSBT option module" where
  "offline = demo\<lparr>new_Faas := offline_faas\<rparr>"

text \<open>A wallet without coins.\<close>

definition broke :: "PSBT option module" where
  "broke = demo\<lparr>NODE_CLIENT := demo_node\<lparr>listunspent :=
     (\<lambda>minconf addresses label w. (Inr [], w))\<rparr>\<rparr>"

section \<open>Running a program step by step\<close>

lemma steps_simps [simp]:
  "steps [] = []"
  "steps (ev # evs) = (if is_log ev then steps evs else ev # steps evs)"
  "steps (xs @ ys) = steps xs @ steps ys"
  by (simp_all add: steps_def)


lemma run_triple: "p w = (outcome_of p w, events_of p w, snd (snd (p w)))"
  by (simp add: outcome_of_def events_of_def)

lemma bindE_emit: "bindE (emit ev) f w = (case f () w of (r, t, w') \<Rightarrow> (r, ev # t, w'))"
  by (simp add: bindE_def emit_def)

lemma bindE_log:
  "bindE (console_log a) f w = (case f () w of (r, t, w') \<Rightarrow> (r, ConsoleLog a # t, w'))"
  by (simp add: console_log_def bindE_emit)

lemma bindE_await: "bindE (await call ev) f w =
  (case call w of
     (Inl msg, w') \<Rightarrow> (Inl (Error msg), [ev (Inl msg)], w')
   | (Inr x, w') \<Rightarrow> (case f x w' of (r, t, w'') \<Rightarrow> (r, ev (Inr x) # t, w'')))"
  by (simp add: bindE_def await_def split: prod.splits sum.splits)

lemma bindE_deepStrictEqual: "bindE (deepStrictEqual a b) f w =
  (if a = b then f () w else (Inl AssertionError, [], w))"
  by (simp add: bindE_def deepStrictEqual_def ret_def throw_def split: prod.splits)

lemma bindE_ret: "bindE (ret x) f w = f x w"
  by (simp add: bindE_def ret_def split: prod.splits)

lemma bindE_throw: "bindE (throw e) f w = (Inl e, [], w)"
  by (simp add: bindE_def throw_def)

lemma bindE_assoc: "bindE (bindE m f) g = bindE m (\<lambda>x. bindE (f x) g)"
  by (rule ext) (simp add: bindE_def split: prod.splits sum.splits)

lemma bindE_catch: "bindE (catch m h) f w =
  (case catch m h w of
     (Inl e, t, w') \<Rightarrow> (Inl e, t, w')
   | (Inr x, t, w') \<Rightarrow> (case f x w' of (r, t', w'') \<Rightarrow> (r, t @ t', w'')))"
  by (simp add: bindE_def)

lemmas step =
  bindE_log bindE_await bindE_deepStrictEqual bindE_ret bindE_throw bindE_assoc
  deepStrictEqual_def ret_def throw_def Let_def

text \<open>Everything needed to run the functions on the example collaborators.\<close>

lemmas eval =
  main_def run_def psbt_def psbtni_def psbt_then_def psbtni_then_def getPSBT_def processPSBT_def
  catch_def bindE_catch bindE_emit bindE_await bindE_deepStrictEqual bindE_ret bindE_throw
  bindE_assoc deepStrictEqual_def ret_def throw_def Let_def console_log_def console_error_def
  emit_def show_record_def UserChoice_values_def events_of_def outcome_of_def
  demo_def demo_node_def demo_faas_def tampering_def tampering_faas_def rewriting_def
  rewriting_faas_def stalling_def stalling_faas_def renumbering_def renumbering_faas_def
  offline_def offline_faas_def broke_def
  OUTPUT_ADDRESS_def WALLET_LABEL_def FAAS_URL_def FAAS_KEY_def

section \<open>The runs of the two flows\<close>

text \<open>The five ways in which \<open>getPSBT\<close> can go.\<close>

lemma getPSBT_cases:
  assumes "getPSBT m sign sa w = (r, t, w')"
  shows "(\<exists>msg.
         r = Inl (Error msg) \<and>
         t =
           [Listunspent 0 [OUTPUT_ADDRESS] WALLET_LABEL (Inl msg)])
    \<or> (r = Inl (TypeError undefined_txid) \<and>
         t =
           [Listunspent 0 [OUTPUT_ADDRESS] WALLET_LABEL (Inr [])])
    \<or> (\<exists>u us msg.
         r = Inl (Error msg) \<and>
         t =
           [Listunspent 0 [OUTPUT_ADDRESS] WALLET_LABEL (Inr (u # us)),
            Createpsbt [\<lparr>i_txid = u_txid u, i_vout = u_vout u\<rparr>] [(OUTPUT_ADDRESS, u_amount u)]
              0 True (Inl msg)])
    \<or> (\<exists>u us cand msg.
         r = Inl (Error msg) \<and>
         t =
           [Listunspent 0 [OUTPUT_ADDRESS] WALLET_LABEL (Inr (u # us)),
            Createpsbt [\<lparr>i_txid = u_txid u, i_vout = u_vout u\<rparr>] [(OUTPUT_ADDRESS, u_amount u)]
              0 True (Inr cand),
            Walletprocesspsbt cand sign (case sa of None \<Rightarrow> ''ALL'' | Some x \<Rightarrow> x) True WALLET_LABEL (Inl msg)])
    \<or> (\<exists>u us cand c.
         r = Inr (w_psbt c) \<and>
         t =
           [Listunspent 0 [OUTPUT_ADDRESS] WALLET_LABEL (Inr (u # us)),
            Createpsbt [\<lparr>i_txid = u_txid u, i_vout = u_vout u\<rparr>] [(OUTPUT_ADDRESS, u_amount u)]
              0 True (Inr cand),
            Walletprocesspsbt cand sign (case sa of None \<Rightarrow> ''ALL'' | Some x \<Rightarrow> x) True WALLET_LABEL (Inr c)])"
proof -
  obtain rp1 w1 where o1:
    "listunspent (NODE_CLIENT m) 0 [OUTPUT_ADDRESS] WALLET_LABEL w = (rp1, w1)"
    by (cases "listunspent (NODE_CLIENT m) 0 [OUTPUT_ADDRESS] WALLET_LABEL w")
  show ?thesis
  proof (cases rp1)
    case (Inl msg)
    from assms o1[unfolded Inl] show ?thesis by (auto simp add: getPSBT_def step)
  next
    case (Inr unspent)
    note o1 = o1[unfolded Inr]
    show ?thesis
    proof (cases unspent)
      case Nil
      from assms o1[unfolded Nil] show ?thesis by (auto simp add: getPSBT_def step)
    next
      case (Cons u us)
      note o1 = o1[unfolded Cons]
      from assms o1 show ?thesis
        by (auto simp add: getPSBT_def step split: prod.splits sum.splits)
    qed
  qed
qed

text \<open>The eight ways in which the callback of \<open>psbt\<close> can go, one per call and check.\<close>

lemma psbt_then_cases:
  assumes "psbt_then m faas orig w = (r, t, w')"
  shows "(\<exists>msg.
         createPSBT faas (ASSET_BTC m) orig w = (Inl msg, w') \<and>
         r = Inl (Error msg) \<and>
         steps t =
           [CreatePSBT (ASSET_BTC m) orig (Inl msg)])
    \<or> (\<exists>fee w1 msg.
         createPSBT faas (ASSET_BTC m) orig w = (Inr fee, w1) \<and>
         readPSBT faas (p_asset fee) (p_id fee) w1 = (Inl msg, w') \<and>
         r = Inl (Error msg) \<and>
         steps t =
           [CreatePSBT (ASSET_BTC m) orig (Inr fee),
            ReadPSBT (p_asset fee) (p_id fee) (Inl msg)])
    \<or> (\<exists>fee w1 rd.
         createPSBT faas (ASSET_BTC m) orig w = (Inr fee, w1) \<and>
         readPSBT faas (p_asset fee) (p_id fee) w1 = (Inr rd, w') \<and>
         rd \<noteq> fee \<and>
         r = Inl AssertionError \<and>
         steps t =
           [CreatePSBT (ASSET_BTC m) orig (Inr fee),
            ReadPSBT (p_asset fee) (p_id fee) (Inr rd)])
    \<or> (\<exists>fee w1 w2 msg.
         createPSBT faas (ASSET_BTC m) orig w = (Inr fee, w1) \<and>
         readPSBT faas (p_asset fee) (p_id fee) w1 = (Inr fee, w2) \<and>
         walletprocesspsbt (NODE_CLIENT m) (p_psbt fee) True ''ALL'' True WALLET_LABEL w2 =
           (Inl msg, w') \<and>
         r = Inl (Error msg) \<and>
         steps t =
           [CreatePSBT (ASSET_BTC m) orig (Inr fee),
            ReadPSBT (p_asset fee) (p_id fee) (Inr fee),
            Walletprocesspsbt (p_psbt fee) True ''ALL'' True WALLET_LABEL (Inl msg)])
    \<or> (\<exists>fee w1 w2 p w3 msg.
         createPSBT faas (ASSET_BTC m) orig w = (Inr fee, w1) \<and>
         readPSBT faas (p_asset fee) (p_id fee) w1 = (Inr fee, w2) \<and>
         walletprocesspsbt (NODE_CLIENT m) (p_psbt fee) True ''ALL'' True WALLET_LABEL w2 =
           (Inr p, w3) \<and>
         updatePSBT faas (ASSET_BTC m) (p_id fee) (w_psbt p) w3 = (Inl msg, w') \<and>
         r = Inl (Error msg) \<and>
         steps t =
           [CreatePSBT (ASSET_BTC m) orig (Inr fee),
            ReadPSBT (p_asset fee) (p_id fee) (Inr fee),
            Walletprocesspsbt (p_psbt fee) True ''ALL'' True WALLET_LABEL (Inr p),
            UpdatePSBT (ASSET_BTC m) (p_id fee) (w_psbt p) (Inl msg)])
    \<or> (\<exists>fee w1 w2 p w3 bc w4 msg.
         createPSBT faas (ASSET_BTC m) orig w = (Inr fee, w1) \<and>
         readPSBT faas (p_asset fee) (p_id fee) w1 = (Inr fee, w2) \<and>
         walletprocesspsbt (NODE_CLIENT m) (p_psbt fee) True ''ALL'' True WALLET_LABEL w2 =
           (Inr p, w3) \<and>
         updatePSBT faas (ASSET_BTC m) (p_id fee) (w_psbt p) w3 = (Inr bc, w4) \<and>
         readPSBT faas (p_asset bc) (p_id bc) w4 = (Inl msg, w') \<and>
         r = Inl (Error msg) \<and>
         steps t =
           [CreatePSBT (ASSET_BTC m) orig (Inr fee),
            ReadPSBT (p_asset fee) (p_id fee) (Inr fee),
            Walletprocesspsbt (p_psbt fee) True ''ALL'' True WALLET_LABEL (Inr p),
            UpdatePSBT (ASSET_BTC m) (p_id fee) (w_psbt p) (Inr bc),
            ReadPSBT (p_asset bc) (p_id bc) (Inl msg)])
    \<or> (\<exists>fee w1 w2 p w3 bc w4 rd.
         createPSBT faas (ASSET_BTC m) orig w = (Inr fee, w1) \<and>
         readPSBT faas (p_asset fee) (p_id fee) w1 = (Inr fee, w2) \<and>
         walletprocesspsbt (NODE_CLIENT m) (p_psbt fee) True ''ALL'' True WALLET_LABEL w2 =
           (Inr p, w3) \<and>
         updatePSBT faas (ASSET_BTC m) (p_id fee) (w_psbt p) w3 = (Inr bc, w4) \<and>
         readPSBT faas (p_asset bc) (p_id bc) w4 = (Inr rd, w') \<and>
         rd \<noteq> bc \<and>
         r = Inl AssertionError \<and>
         steps t =
           [CreatePSBT (ASSET_BTC m) orig (Inr fee),
            ReadPSBT (p_asset fee) (p_id fee) (Inr fee),
            Walletprocesspsbt (p_psbt fee) True ''ALL'' True WALLET_LABEL (Inr p),
            UpdatePSBT (ASSET_BTC m) (p_id fee) (w_psbt p) (Inr bc),
            ReadPSBT (p_asset bc) (p_id bc) (Inr rd)])
    \<or> (\<exists>fee w1 w2 p w3 bc w4.
         createPSBT faas (ASSET_BTC m) orig w = (Inr fee, w1) \<and>
         readPSBT faas (p_asset fee) (p_id fee) w1 = (Inr fee, w2) \<and>
         walletprocesspsbt (NODE_CLIENT m) (p_psbt fee) True ''ALL'' True WALLET_LABEL w2 =
           (Inr p, w3) \<and>
         updatePSBT faas (ASSET_BTC m) (p_id fee) (w_psbt p) w3 = (Inr bc, w4) \<and>
         readPSBT faas (p_asset bc) (p_id bc) w4 = (Inr bc, w') \<and>
         r = Inr () \<and>
         steps t =
           [CreatePSBT (ASSET_BTC m) orig (Inr fee),
            ReadPSBT (p_asset fee) (p_id fee) (Inr fee),
            Walletprocesspsbt (p_psbt fee) True ''ALL'' True WALLET_LABEL (Inr p),
            UpdatePSBT (ASSET_BTC m) (p_id fee) (w_psbt p) (Inr bc),
            ReadPSBT (p_asset bc) (p_id bc) (Inr bc)])"
proof -
  note defs = psbt_then_def processPSBT_def step
  obtain rp1 w1 where o1: "createPSBT faas (ASSET_BTC m) orig w = (rp1, w1)"
    by (cases "createPSBT faas (ASSET_BTC m) orig w")
  show ?thesis
  proof (cases rp1)
    case (Inl msg)
    from assms o1[unfolded Inl] show ?thesis by (auto simp add: defs)
  next
    case (Inr fee)
    note o1 = o1[unfolded Inr]
    obtain rp2 w2 where o2: "readPSBT faas (p_asset fee) (p_id fee) w1 = (rp2, w2)"
      by (cases "readPSBT faas (p_asset fee) (p_id fee) w1")
    show ?thesis
    proof (cases rp2)
      case (Inl msg)
      from assms o1 o2[unfolded Inl] show ?thesis by (auto simp add: defs)
    next
      case (Inr rd)
      note o2 = o2[unfolded Inr]
      show ?thesis
      proof (cases "rd = fee")
        case False
        with assms o1 o2 show ?thesis by (auto simp add: defs)
      next
        case True
        note o2 = o2[unfolded True]
        obtain rp3 w3 where o3: "walletprocesspsbt (NODE_CLIENT m) (p_psbt fee) True ''ALL'' True
            WALLET_LABEL w2 = (rp3, w3)"
          by (cases "walletprocesspsbt (NODE_CLIENT m) (p_psbt fee) True ''ALL'' True
            WALLET_LABEL w2")
        show ?thesis
        proof (cases rp3)
          case (Inl msg)
          from assms o1 o2 o3[unfolded Inl] show ?thesis by (auto simp add: defs)
        next
          case (Inr p)
          note o3 = o3[unfolded Inr]
          obtain rp4 w4 where o4:
            "updatePSBT faas (ASSET_BTC m) (p_id fee) (w_psbt p) w3 = (rp4, w4)"
            by (cases "updatePSBT faas (ASSET_BTC m) (p_id fee) (w_psbt p) w3")
          show ?thesis
          proof (cases rp4)
            case (Inl msg)
            from assms o1 o2 o3 o4[unfolded Inl] show ?thesis by (auto simp add: defs)
          next
            case (Inr bc)
            note o4 = o4[unfolded Inr]
            obtain rp5 w5 where o5: "readPSBT faas (p_asset bc) (p_id bc) w4 = (rp5, w5)"
              by (cases "readPSBT faas (p_asset bc) (p_id bc) w4")
            show ?thesis
            proof (cases rp5)
              case (Inl msg)
              from assms o1 o2 o3 o4 o5[unfolded Inl] show ?thesis by (auto simp add: defs)
            next
              case (Inr rd2)
              from assms o1 o2 o3 o4 o5[unfolded Inr] show ?thesis
                by (cases "rd2 = bc") (auto simp add: defs)
            qed
          qed
        qed
      qed
    qed
  qed
qed

text \<open>The four ways in which the callback of \<open>psbtni\<close> can go.\<close>

lemma psbtni_then_cases:
  assumes "psbtni_then m faas signed w = (r, t, w')"
  shows "(\<exists>msg.
         createPSBTNI faas (ASSET_BTC m) signed w = (Inl msg, w') \<and>
         r = Inl (Error msg) \<and>
         steps t =
           [CreatePSBTNI (ASSET_BTC m) signed (Inl msg)])
    \<or> (\<exists>bc w1 msg.
         createPSBTNI faas (ASSET_BTC m) signed w = (Inr bc, w1) \<and>
         readPSBTNI faas (p_asset bc) (p_id bc) w1 = (Inl msg, w') \<and>
         r = Inl (Error msg) \<and>
         steps t =
           [CreatePSBTNI (ASSET_BTC m) signed (Inr bc),
            ReadPSBTNI (p_asset bc) (p_id bc) (Inl msg)])
    \<or> (\<exists>bc w1 rd.
         createPSBTNI faas (ASSET_BTC m) signed w = (Inr bc, w1) \<and>
         readPSBTNI faas (p_asset bc) (p_id bc) w1 = (Inr rd, w') \<and>
         rd \<noteq> bc \<and>
         r = Inl AssertionError \<and>
         steps t =
           [CreatePSBTNI (ASSET_BTC m) signed (Inr bc),
            ReadPSBTNI (p_asset bc) (p_id bc) (Inr rd)])
    \<or> (\<exists>bc w1.
         createPSBTNI faas (ASSET_BTC m) signed w = (Inr bc, w1) \<and>
         readPSBTNI faas (p_asset bc) (p_id bc) w1 = (Inr bc, w') \<and>
         r = Inr () \<and>
         steps t =
           [CreatePSBTNI (ASSET_BTC m) signed (Inr bc),
            ReadPSBTNI (p_asset bc) (p_id bc) (Inr bc)])"
  using assms
  by (auto simp add: psbtni_then_def step split: prod.splits sum.splits if_splits)

text \<open>Both flows have the shape \<open>start; g.then(k).catch(report)\<close>.\<close>

lemma flow_steps:
  assumes "bindE (console_log a) (\<lambda>_. catch (bindE g k) (\<lambda>e. console_error (b e))) w =
             (r, evs, w')"
  shows "r = Inr () \<and> (\<exists>r0 t0 w0. g w = (r0, t0, w0) \<and>
           (case r0 of
              Inl e \<Rightarrow> w' = w0 \<and> steps evs = steps t0 @ [ConsoleError (b e)]
            | Inr x \<Rightarrow> (\<exists>r1 t1. k x w0 = (r1, t1, w') \<and>
                steps evs = steps t0 @ steps t1 @
                  (case r1 of Inl e \<Rightarrow> [ConsoleError (b e)] | Inr _ \<Rightarrow> []))))"
  using assms
  apply (simp only: bindE_log)
  apply (auto simp add: catch_def bindE_def console_error_def emit_def
      split: prod.splits sum.splits)
  done

text \<open>The twelve runs of the interactive flow.\<close>

lemma psbt_cases:
  assumes "psbt m faas w = (r, evs, w')"
  shows "r = Inr () \<and>
     ((\<exists>msg.
         steps evs =
           [Listunspent 0 [OUTPUT_ADDRESS] WALLET_LABEL (Inl msg),
            ConsoleError [LStr ''PSBT failed:'', LMessage (Error msg)]])
    \<or> (steps evs =
           [Listunspent 0 [OUTPUT_ADDRESS] WALLET_LABEL (Inr []),
            ConsoleError [LStr ''PSBT failed:'', LMessage (TypeError undefined_txid)]])
    \<or> (\<exists>u us msg.
         steps evs =
           [Listunspent 0 [OUTPUT_ADDRESS] WALLET_LABEL (Inr (u # us)),
            Createpsbt [\<lparr>i_txid = u_txid u, i_vout = u_vout u\<rparr>] [(OUTPUT_ADDRESS, u_amount u)]
              0 True (Inl msg),
            ConsoleError [LStr ''PSBT failed:'', LMessage (Error msg)]])
    \<or> (\<exists>u us cand msg.
         steps evs =
           [Listunspent 0 [OUTPUT_ADDRESS] WALLET_LABEL (Inr (u # us)),
            Createpsbt [\<lparr>i_txid = u_txid u, i_vout = u_vout u\<rparr>] [(OUTPUT_ADDRESS, u_amount u)]
              0 True (Inr cand),
            Walletprocesspsbt cand False ''ALL'' True WALLET_LABEL (Inl msg),
            ConsoleError [LStr ''PSBT failed:'', LMessage (Error msg)]])
    \<or> (\<exists>u us cand c w0 msg.
         createPSBT faas (ASSET_BTC m) (w_psbt c) w0 = (Inl msg, w') \<and>
         steps evs =
           [Listunspent 0 [OUTPUT_ADDRESS] WALLET_LABEL (Inr (u # us)),
            Createpsbt [\<lparr>i_txid = u_txid u, i_vout = u_vout u\<rparr>] [(OUTPUT_ADDRESS, u_amount u)]
              0 True (Inr cand),
            Walletprocesspsbt cand False ''ALL'' True WALLET_LABEL (Inr c),
            CreatePSBT (ASSET_BTC m) (w_psbt c) (Inl msg),
            ConsoleError [LStr ''PSBT failed:'', LMessage (Error msg)]])
    \<or> (\<exists>u us cand c w0 fee w1 msg.
         createPSBT faas (ASSET_BTC m) (w_psbt c) w0 = (Inr fee, w1) \<and>
         readPSBT faas (p_asset fee) (p_id fee) w1 = (Inl msg, w') \<and>
         steps evs =
           [Listunspent 0 [OUTPUT_ADDRESS] WALLET_LABEL (Inr (u # us)),
            Createpsbt [\<lparr>i_txid = u_txid u, i_vout = u_vout u\<rparr>] [(OUTPUT_ADDRESS, u_amount u)]
              0 True (Inr cand),
            Walletprocesspsbt cand False ''ALL'' True WALLET_LABEL (Inr c),
            CreatePSBT (ASSET_BTC m) (w_psbt c) (Inr fee),
            ReadPSBT (p_asset fee) (p_id fee) (Inl msg),
            ConsoleError [LStr ''PSBT failed:'', LMessage (Error msg)]])
    \<or> (\<exists>u us cand c w0 fee w1 rd.
         createPSBT faas (ASSET_BTC m) (w_psbt c) w0 = (Inr fee, w1) \<and>
         readPSBT faas (p_asset fee) (p_id fee) w1 = (Inr rd, w') \<and>
         rd \<noteq> fee \<and>
         steps evs =
           [Listunspent 0 [OUTPUT_ADDRESS] WALLET_LABEL (Inr (u # us)),
            Createpsbt [\<lparr>i_txid = u_txid u, i_vout = u_vout u\<rparr>] [(OUTPUT_ADDRESS, u_amount u)]
              0 True (Inr cand),
            Walletprocesspsbt cand False ''ALL'' True WALLET_LABEL (Inr c),
            CreatePSBT (ASSET_BTC m) (w_psbt c) (Inr fee),
            ReadPSBT (p_asset fee) (p_id fee) (Inr rd),
            ConsoleError [LStr ''PSBT failed:'', LMessage (AssertionError)]])
    \<or> (\<exists>u us cand c w0 fee w1 w2 msg.
         createPSBT faas (ASSET_BTC m) (w_psbt c) w0 = (Inr fee, w1) \<and>
         readPSBT faas (p_asset fee) (p_id fee) w1 = (Inr fee, w2) \<and>
         walletprocesspsbt (NODE_CLIENT m) (p_psbt fee) True ''ALL'' True WALLET_LABEL w2 =
           (Inl msg, w') \<and>
         steps evs =
           [Listunspent 0 [OUTPUT_ADDRESS] WALLET_LABEL (Inr (u # us)),
            Createpsbt [\<lparr>i_txid = u_txid u, i_vout = u_vout u\<rparr>] [(OUTPUT_ADDRESS, u_amount u)]
              0 True (Inr cand),
            Walletprocesspsbt cand False ''ALL'' True WALLET_LABEL (Inr c),
            CreatePSBT (ASSET_BTC m) (w_psbt c) (Inr fee),
            ReadPSBT (p_asset fee) (p_id fee) (Inr fee),
            Walletprocesspsbt (p_psbt fee) True ''ALL'' True WALLET_LABEL (Inl msg),
            ConsoleError [LStr ''PSBT failed:'', LMessage (Error msg)]])
    \<or> (\<exists>u us cand c w0 fee w1 w2 p w3 msg.
         createPSBT faas (ASSET_BTC m) (w_psbt c) w0 = (Inr fee, w1) \<and>
         readPSBT faas (p_asset fee) (p_id fee) w1 = (Inr fee, w2) \<and>
         walletprocesspsbt (NODE_CLIENT m) (p_psbt fee) True ''ALL'' True WALLET_LABEL w2 =
           (Inr p, w3) \<and>
         updatePSBT faas (ASSET_BTC m) (p_id fee) (w_psbt p) w3 = (Inl msg, w') \<and>
         steps evs =
           [Listunspent 0 [OUTPUT_ADDRESS] WALLET_LABEL (Inr (u # us)),
            Createpsbt [\<lparr>i_txid = u_txid u, i_vout = u_vout u\<rparr>] [(OUTPUT_ADDRESS, u_amount u)]
              0 True (Inr cand),
            Walletprocesspsbt cand False ''ALL'' True WALLET_LABEL (Inr c),
            CreatePSBT (ASSET_BTC m) (w_psbt c) (Inr fee),
            ReadPSBT (p_asset fee) (p_id fee) (Inr fee),
            Walletprocesspsbt (p_psbt fee) True ''ALL'' True WALLET_LABEL (Inr p),
            UpdatePSBT (ASSET_BTC m) (p_id fee) (w_psbt p) (Inl msg),
            ConsoleError [LStr ''PSBT failed:'', LMessage (Error msg)]])
    \<or> (\<exists>u us cand c w0 fee w1 w2 p w3 bc w4 msg.
         createPSBT faas (ASSET_BTC m) (w_psbt c) w0 = (Inr fee, w1) \<and>
         readPSBT faas (p_asset fee) (p_id fee) w1 = (Inr fee, w2) \<and>
         walletprocesspsbt (NODE_CLIENT m) (p_psbt fee) True ''ALL'' True WALLET_LABEL w2 =
           (Inr p, w3) \<and>
         updatePSBT faas (ASSET_BTC m) (p_id fee) (w_psbt p) w3 = (Inr bc, w4) \<and>
         readPSBT faas (p_asset bc) (p_id bc) w4 = (Inl msg, w') \<and>
         steps evs =
           [Listunspent 0 [OUTPUT_ADDRESS] WALLET_LABEL (Inr (u # us)),
            Createpsbt [\<lparr>i_txid = u_txid u, i_vout = u_vout u\<rparr>] [(OUTPUT_ADDRESS, u_amount u)]
              0 True (Inr cand),
            Walletprocesspsbt cand False ''ALL'' True WALLET_LABEL (Inr c),
            CreatePSBT (ASSET_BTC m) (w_psbt c) (Inr fee),
            ReadPSBT (p_asset fee) (p_id fee) (Inr fee),
            Walletprocesspsbt (p_psbt fee) True ''ALL'' True WALLET_LABEL (Inr p),
            UpdatePSBT (ASSET_BTC m) (p_id fee) (w_psbt p) (Inr bc),
            ReadPSBT (p_asset bc) (p_id bc) (Inl msg),
            ConsoleError [LStr ''PSBT failed:'', LMessage (Error msg)]])
    \<or> (\<exists>u us cand c w0 fee w1 w2 p w3 bc w4 rd.
         createPSBT faas (ASSET_BTC m) (w_psbt c) w0 = (Inr fee, w1) \<and>
         readPSBT faas (p_asset fee) (p_id fee) w1 = (Inr fee, w2) \<and>
         walletprocesspsbt (NODE_CLIENT m) (p_psbt fee) True ''ALL'' True WALLET_LABEL w2 =
           (Inr p, w3) \<and>
         updatePSBT faas (ASSET_BTC m) (p_id fee) (w_psbt p) w3 = (Inr bc, w4) \<and>
         readPSBT faas (p_asset bc) (p_id bc) w4 = (Inr rd, w') \<and>
         rd \<noteq> bc \<and>
         steps evs =
           [Listunspent 0 [OUTPUT_ADDRESS] WALLET_LABEL (Inr (u # us)),
            Createpsbt [\<lparr>i_txid = u_txid u, i_vout = u_vout u\<rparr>] [(OUTPUT_ADDRESS, u_amount u)]
              0 True (Inr cand),
            Walletprocesspsbt cand False ''ALL'' True WALLET_LABEL (Inr c),
            CreatePSBT (ASSET_BTC m) (w_psbt c) (Inr fee),
            ReadPSBT (p_asset fee) (p_id fee) (Inr fee),
            Walletprocesspsbt (p_psbt fee) True ''ALL'' True WALLET_LABEL (Inr p),
            UpdatePSBT (ASSET_BTC m) (p_id fee) (w_psbt p) (Inr bc),
            ReadPSBT (p_asset bc) (p_id bc) (Inr rd),
            ConsoleError [LStr ''PSBT failed:'', LMessage (AssertionError)]])
    \<or> (\<exists>u us cand c w0 fee w1 w2 p w3 bc w4.
         createPSBT faas (ASSET_BTC m) (w_psbt c) w0 = (Inr fee, w1) \<and>
         readPSBT faas (p_asset fee) (p_id fee) w1 = (Inr fee, w2) \<and>
         walletprocesspsbt (NODE_CLIENT m) (p_psbt fee) True ''ALL'' True WALLET_LABEL w2 =
           (Inr p, w3) \<and>
         updatePSBT faas (ASSET_BTC m) (p_id fee) (w_psbt p) w3 = (Inr bc, w4) \<and>
         readPSBT faas (p_asset bc) (p_id bc) w4 = (Inr bc, w') \<and>
         steps evs =
           [Listunspent 0 [OUTPUT_ADDRESS] WALLET_LABEL (Inr (u # us)),
            Createpsbt [\<lparr>i_txid = u_txid u, i_vout = u_vout u\<rparr>] [(OUTPUT_ADDRESS, u_amount u)]
              0 True (Inr cand),
            Walletprocesspsbt cand False ''ALL'' True WALLET_LABEL (Inr c),
            CreatePSBT (ASSET_BTC m) (w_psbt c) (Inr fee),
            ReadPSBT (p_asset fee) (p_id fee) (Inr fee),
            Walletprocesspsbt (p_psbt fee) True ''ALL'' True WALLET_LABEL (Inr p),
            UpdatePSBT (ASSET_BTC m) (p_id fee) (w_psbt p) (Inr bc),
            ReadPSBT (p_asset bc) (p_id bc) (Inr bc)]))"
proof -
  from flow_steps[OF assms[unfolded psbt_def]] obtain r0 t0 w0 where
    r: "r = Inr ()" and g: "getPSBT m False None w = (r0, t0, w0)" and
    rest: "case r0 of
              Inl e \<Rightarrow> w' = w0 \<and>
                steps evs = steps t0 @ [ConsoleError [LStr ''PSBT failed:'', LMessage e]]
            | Inr x \<Rightarrow> (\<exists>r1 t1. psbt_then m faas x w0 = (r1, t1, w') \<and>
                steps evs = steps t0 @ steps t1 @
                  (case r1 of Inl e \<Rightarrow> [ConsoleError [LStr ''PSBT failed:'', LMessage e]]
                   | Inr _ \<Rightarrow> []))"
    by blast
  show ?thesis
  proof (cases r0)
    case (Inl e)
    with rest have ev: "steps evs = steps t0 @ [ConsoleError [LStr ''PSBT failed:'', LMessage e]]"
      by simp
    from getPSBT_cases[OF g] Inl ev r show ?thesis
      by (elim disjE exE conjE) simp_all
  next
    case (Inr orig)
    with rest obtain r1 t1 where t: "psbt_then m faas orig w0 = (r1, t1, w')" and
      ev: "steps evs = steps t0 @ steps t1 @
                  (case r1 of Inl e \<Rightarrow> [ConsoleError [LStr ''PSBT failed:'', LMessage e]]
                   | Inr _ \<Rightarrow> [])"
      by auto
    from getPSBT_cases[OF g] Inr obtain u us cand c where
      orig: "orig = w_psbt c" and t0: "t0 =
           [Listunspent 0 [OUTPUT_ADDRESS] WALLET_LABEL (Inr (u # us)),
            Createpsbt [\<lparr>i_txid = u_txid u, i_vout = u_vout u\<rparr>] [(OUTPUT_ADDRESS, u_amount u)]
              0 True (Inr cand),
            Walletprocesspsbt cand False ''ALL'' True WALLET_LABEL (Inr c)]"
      by auto
    from psbt_then_cases[OF t[unfolded orig]] ev[unfolded t0] r show ?thesis
      by (elim disjE exE conjE) (simp_all, blast+)
  qed
qed

text \<open>The eight runs of the non-interactive flow.\<close>

lemma psbtni_cases:
  assumes "psbtni m faas w = (r, evs, w')"
  shows "r = Inr () \<and>
     ((\<exists>msg.
         steps evs =
           [Listunspent 0 [OUTPUT_ADDRESS] WALLET_LABEL (Inl msg),
            ConsoleError [LStr ''PSBTNI failed:'', LMessage (Error msg)]])
    \<or> (steps evs =
           [Listunspent 0 [OUTPUT_ADDRESS] WALLET_LABEL (Inr []),
            ConsoleError [LStr ''PSBTNI failed:'', LMessage (TypeError undefined_txid)]])
    \<or> (\<exists>u us msg.
         steps evs =
           [Listunspent 0 [OUTPUT_ADDRESS] WALLET_LABEL (Inr (u # us)),
            Createpsbt [\<lparr>i_txid = u_txid u, i_vout = u_vout u\<rparr>] [(OUTPUT_ADDRESS, u_amount u)]
              0 True (Inl msg),
            ConsoleError [LStr ''PSBTNI failed:'', LMessage (Error msg)]])
    \<or> (\<exists>u us cand msg.
         steps evs =
           [Listunspent 0 [OUTPUT_ADDRESS] WALLET_LABEL (Inr (u # us)),
            Createpsbt [\<lparr>i_txid = u_txid u, i_vout = u_vout u\<rparr>] [(OUTPUT_ADDRESS, u_amount u)]
              0 True (Inr cand),
            Walletprocesspsbt cand True ''ALL|ANYONECANPAY'' True WALLET_LABEL (Inl msg),
            ConsoleError [LStr ''PSBTNI failed:'', LMessage (Error msg)]])
    \<or> (\<exists>u us cand c w0 msg.
         createPSBTNI faas (ASSET_BTC m) (w_psbt c) w0 = (Inl msg, w') \<and>
         steps evs =
           [Listunspent 0 [OUTPUT_ADDRESS] WALLET_LABEL (Inr (u # us)),
            Createpsbt [\<lparr>i_txid = u_txid u, i_vout = u_vout u\<rparr>] [(OUTPUT_ADDRESS, u_amount u)]
              0 True (Inr cand),
            Walletprocesspsbt cand True ''ALL|ANYONECANPAY'' True WALLET_LABEL (Inr c),
            CreatePSBTNI (ASSET_BTC m) (w_psbt c) (Inl msg),
            ConsoleError [LStr ''PSBTNI failed:'', LMessage (Error msg)]])
    \<or> (\<exists>u us cand c w0 bc w1 msg.
         createPSBTNI faas (ASSET_BTC m) (w_psbt c) w0 = (Inr bc, w1) \<and>
         readPSBTNI faas (p_asset bc) (p_id bc) w1 = (Inl msg, w') \<and>
         steps evs =
           [Listunspent 0 [OUTPUT_ADDRESS] WALLET_LABEL (Inr (u # us)),
            Createpsbt [\<lparr>i_txid = u_txid u, i_vout = u_vout u\<rparr>] [(OUTPUT_ADDRESS, u_amount u)]
              0 True (Inr cand),
            Walletprocesspsbt cand True ''ALL|ANYONECANPAY'' True WALLET_LABEL (Inr c),
            CreatePSBTNI (ASSET_BTC m) (w_psbt c) (Inr bc),
            ReadPSBTNI (p_asset bc) (p_id bc) (Inl msg),
            ConsoleError [LStr ''PSBTNI failed:'', LMessage (Error msg)]])
    \<or> (\<exists>u us cand c w0 bc w1 rd.
         createPSBTNI faas (ASSET_BTC m) (w_psbt c) w0 = (Inr bc, w1) \<and>
         readPSBTNI faas (p_asset bc) (p_id bc) w1 = (Inr rd, w') \<and>
         rd \<noteq> bc \<and>
         steps evs =
           [Listunspent 0 [OUTPUT_ADDRESS] WALLET_LABEL (Inr (u # us)),
            Createpsbt [\<lparr>i_txid = u_txid u, i_vout = u_vout u\<rparr>] [(OUTPUT_ADDRESS, u_amount u)]
              0 True (Inr cand),
            Walletprocesspsbt cand True ''ALL|ANYONECANPAY'' True WALLET_LABEL (Inr c),
            CreatePSBTNI (ASSET_BTC m) (w_psbt c) (Inr bc),
            ReadPSBTNI (p_asset bc) (p_id bc) (Inr rd),
            ConsoleError [LStr ''PSBTNI failed:'', LMessage (AssertionError)]])
    \<or> (\<exists>u us cand c w0 bc w1.
         createPSBTNI faas (ASSET_BTC m) (w_psbt c) w0 = (Inr bc, w1) \<and>
         readPSBTNI faas (p_asset bc) (p_id bc) w1 = (Inr bc, w') \<and>
         steps evs =
           [Listunspent 0 [OUTPUT_ADDRESS] WALLET_LABEL (Inr (u # us)),
            Createpsbt [\<lparr>i_txid = u_txid u, i_vout = u_vout u\<rparr>] [(OUTPUT_ADDRESS, u_amount u)]
              0 True (Inr cand),
            Walletprocesspsbt cand True ''ALL|ANYONECANPAY'' True WALLET_LABEL (Inr c),
            CreatePSBTNI (ASSET_BTC m) (w_psbt c) (Inr bc),
            ReadPSBTNI (p_asset bc) (p_id bc) (Inr bc)]))"
proof -
  from flow_steps[OF assms[unfolded psbtni_def]] obtain r0 t0 w0 where
    r: "r = Inr ()" and g: "getPSBT m True (Some ''ALL|ANYONECANPAY'') w = (r0, t0, w0)" and
    rest: "case r0 of
              Inl e \<Rightarrow> w' = w0 \<and>
                steps evs = steps t0 @ [ConsoleError [LStr ''PSBTNI failed:'', LMessage e]]
            | Inr x \<Rightarrow> (\<exists>r1 t1. psbtni_then m faas x w0 = (r1, t1, w') \<and>
                steps evs = steps t0 @ steps t1 @
                  (case r1 of Inl e \<Rightarrow> [ConsoleError [LStr ''PSBTNI failed:'', LMessage e]]
                   | Inr _ \<Rightarrow> []))"
    by blast
  show ?thesis
  proof (cases r0)
    case (Inl e)
    with rest have ev:
      "steps evs = steps t0 @ [ConsoleError [LStr ''PSBTNI failed:'', LMessage e]]"
      by simp
    from getPSBT_cases[OF g] Inl ev r show ?thesis
      by (elim disjE exE conjE) simp_all
  next
    case (Inr signed)
    with rest obtain r1 t1 where t: "psbtni_then m faas signed w0 = (r1, t1, w')" and
      ev: "steps evs = steps t0 @ steps t1 @
                  (case r1 of Inl e \<Rightarrow> [ConsoleError [LStr ''PSBTNI failed:'', LMessage e]]
                   | Inr _ \<Rightarrow> [])"
      by auto
    from getPSBT_cases[OF g] Inr obtain u us cand c where
      signed: "signed = w_psbt c" and t0: "t0 =
           [Listunspent 0 [OUTPUT_ADDRESS] WALLET_LABEL (Inr (u # us)),
            Createpsbt [\<lparr>i_txid = u_txid u, i_vout = u_vout u\<rparr>] [(OUTPUT_ADDRESS, u_amount u)]
              0 True (Inr cand),
            Walletprocesspsbt cand True ''ALL|ANYONECANPAY'' True WALLET_LABEL (Inr c)]"
      by auto
    from psbtni_then_cases[OF t[unfolded signed]] ev[unfolded t0] r show ?thesis
      by (elim disjE exE conjE) (simp_all, blast+)
  qed
qed

subsection \<open>What follows for the interactive flow\<close>

lemma psbt_outcome: "outcome_of (psbt m faas) w = Inr ()"
  using psbt_cases[OF run_triple[of "psbt m faas" w]] by simp

lemma psbt_call_names:
  "prefix (List.map_filter call_name (steps (events_of (psbt m faas) w))) psbt_calls"
  using psbt_cases[OF run_triple[of "psbt m faas" w]]
  by (elim conjE disjE exE) (simp_all add: List.map_filter_simps psbt_calls_def)

lemma psbt_sign_pre:
  assumes "steps (events_of (psbt m faas) w) =
             pre @ Walletprocesspsbt blob True sh d l rep # post"
  shows "sh = ''ALL'' \<and>
      (\<exists>u us cand c fee. blob = p_psbt fee \<and> pre =
         [Listunspent 0 [OUTPUT_ADDRESS] WALLET_LABEL (Inr (u # us)),
          Createpsbt [\<lparr>i_txid = u_txid u, i_vout = u_vout u\<rparr>] [(OUTPUT_ADDRESS, u_amount u)]
            0 True (Inr cand),
          Walletprocesspsbt cand False ''ALL'' True WALLET_LABEL (Inr c),
          CreatePSBT (ASSET_BTC m) (w_psbt c) (Inr fee),
          ReadPSBT (p_asset fee) (p_id fee) (Inr fee)])"
  using psbt_cases[OF run_triple[of "psbt m faas" w]] unfolding assms
  by (elim conjE disjE exE) (auto simp add: append_eq_Cons_conv)

lemma psbt_rejection:
  assumes "steps (events_of (psbt m faas) w) = pre @ ev # post"
    and "rejection ev = Some msg"
  shows "post = [ConsoleError [LStr ''PSBT failed:'', LMessage (Error msg)]]"
  using psbt_cases[OF run_triple[of "psbt m faas" w]] assms(2) unfolding assms(1)
  by (elim conjE disjE exE) (auto simp add: append_eq_Cons_conv)

lemma psbt_check:
  assumes "steps (events_of (psbt m faas) w) = pre @ x # ReadPSBT a i (Inr rd) # post"
  shows "\<exists>rec. response x = Some rec \<and>
           ((\<exists>b. x = CreatePSBT (ASSET_BTC m) b (Inr rec)) \<or>
            (\<exists>j b. x = UpdatePSBT (ASSET_BTC m) j b (Inr rec))) \<and>
           a = p_asset rec \<and> i = p_id rec \<and>
           (post = [ConsoleError [LStr ''PSBT failed:'', LMessage AssertionError]]) = (rd \<noteq> rec)"
  using psbt_cases[OF run_triple[of "psbt m faas" w]] unfolding assms
  by (elim conjE disjE exE) (auto simp add: append_eq_Cons_conv)

lemma psbt_read_args:
  assumes "steps (events_of (psbt m faas) w) = pre @ ReadPSBT a i rp # post"
  shows "(\<exists>pre' orig fee. pre = pre' @ [CreatePSBT (ASSET_BTC m) orig (Inr fee)] \<and>
            a = p_asset fee \<and> i = p_id fee) \<or>
         (\<exists>pre' orig fee b bc. pre = pre' @ [UpdatePSBT (ASSET_BTC m) (p_id fee) b (Inr bc)] \<and>
            CreatePSBT (ASSET_BTC m) orig (Inr fee) \<in> set pre' \<and>
            a = p_asset bc \<and> i = p_id bc)"
  using psbt_cases[OF run_triple[of "psbt m faas" w]] unfolding assms
  by (elim conjE disjE exE) (auto simp add: append_eq_Cons_conv)

lemma psbt_report_last:
  assumes "steps (events_of (psbt m faas) w) = pre @ ConsoleError args # post"
  shows "post = []"
  using psbt_cases[OF run_triple[of "psbt m faas" w]] unfolding assms
  by (elim conjE disjE exE) (auto simp add: append_eq_Cons_conv)


lemma psbt_update_args:
  assumes "UpdatePSBT a i b rp \<in> set (steps (events_of (psbt m faas) w))"
  shows "\<exists>orig fee p.
           CreatePSBT (ASSET_BTC m) orig (Inr fee) \<in> set (steps (events_of (psbt m faas) w)) \<and>
           Walletprocesspsbt (p_psbt fee) True ''ALL'' True WALLET_LABEL (Inr p)
             \<in> set (steps (events_of (psbt m faas) w)) \<and>
           a = ASSET_BTC m \<and> i = p_id fee \<and> b = w_psbt p"
  using psbt_cases[OF run_triple[of "psbt m faas" w]] assms
  by (elim conjE disjE exE) auto

subsection \<open>What follows for the non-interactive flow\<close>

lemma psbtni_outcome: "outcome_of (psbtni m faas) w = Inr ()"
  using psbtni_cases[OF run_triple[of "psbtni m faas" w]] by simp

lemma psbtni_call_names:
  "prefix (List.map_filter call_name (steps (events_of (psbtni m faas) w))) psbtni_calls"
  using psbtni_cases[OF run_triple[of "psbtni m faas" w]]
  by (elim conjE disjE exE) (simp_all add: List.map_filter_simps psbtni_calls_def)

lemma psbtni_sign_pre:
  assumes "steps (events_of (psbtni m faas) w) =
             pre @ Walletprocesspsbt blob s sh d l rep # post"
  shows "s \<and> sh = ''ALL|ANYONECANPAY'' \<and>
      (\<exists>u us. pre =
         [Listunspent 0 [OUTPUT_ADDRESS] WALLET_LABEL (Inr (u # us)),
          Createpsbt [\<lparr>i_txid = u_txid u, i_vout = u_vout u\<rparr>] [(OUTPUT_ADDRESS, u_amount u)]
            0 True (Inr blob)])"
  using psbtni_cases[OF run_triple[of "psbtni m faas" w]] unfolding assms
  by (elim conjE disjE exE) (auto simp add: append_eq_Cons_conv)

lemma psbtni_rejection:
  assumes "steps (events_of (psbtni m faas) w) = pre @ ev # post"
    and "rejection ev = Some msg"
  shows "post = [ConsoleError [LStr ''PSBTNI failed:'', LMessage (Error msg)]]"
  using psbtni_cases[OF run_triple[of "psbtni m faas" w]] assms(2) unfolding assms(1)
  by (elim conjE disjE exE) (auto simp add: append_eq_Cons_conv)

lemma psbtni_check:
  assumes "steps (events_of (psbtni m faas) w) = pre @ x # ReadPSBTNI a i (Inr rd) # post"
  shows "\<exists>rec. response x = Some rec \<and> a = p_asset rec \<and> i = p_id rec \<and>
           (post = [ConsoleError [LStr ''PSBTNI failed:'', LMessage AssertionError]]) = (rd \<noteq> rec)"
  using psbtni_cases[OF run_triple[of "psbtni m faas" w]] unfolding assms
  by (elim conjE disjE exE) (auto simp add: append_eq_Cons_conv)

lemma psbtni_report_last:
  assumes "steps (events_of (psbtni m faas) w) = pre @ ConsoleError args # post"
  shows "post = []"
  using psbtni_cases[OF run_triple[of "psbtni m faas" w]] unfolding assms
  by (elim conjE disjE exE) (auto simp add: append_eq_Cons_conv)

lemma psbtni_submit_args:
  assumes "CreatePSBTNI a b rp \<in> set (steps (events_of (psbtni m faas) w))"
  shows "\<exists>cand p.
           Walletprocesspsbt cand True ''ALL|ANYONECANPAY'' True WALLET_LABEL (Inr p)
             \<in> set (steps (events_of (psbtni m faas) w)) \<and>
           a = ASSET_BTC m \<and> b = w_psbt p"
  using psbtni_cases[OF run_triple[of "psbtni m faas" w]] assms
  by (elim conjE disjE exE) auto

section \<open>The equality check\<close>

text \<open>
  C1. The check of the Commitment Verifier is \<open>deepStrictEqual\<close> on the two records. It
  succeeds exactly when the observed record equals the expected one; otherwise it throws
  the \<open>AssertionError\<close> (the spec's TamperDetected). A difference in the asset, the id,
  the state or the blob is enough for that, and whatever was to follow the check is not
  run: no event, and the world as it was. In both flows, accordingly, a record read back
  after the sponsor's answer is followed by the failure report, and by nothing else,
  exactly when it differs from that answer.
\<close>

theorem deepStrictEqual_records:
  fixes observed expected :: PSBT and m :: "'w module"
  shows "(deepStrictEqual observed expected w = (Inr (), [], w)) = (observed = expected) \<and>
    (observed \<noteq> expected \<longrightarrow>
       deepStrictEqual observed expected w = (Inl AssertionError, [], w)) \<and>
    (p_asset observed \<noteq> p_asset expected \<or> p_id observed \<noteq> p_id expected \<or>
     p_state observed \<noteq> p_state expected \<or> p_psbt observed \<noteq> p_psbt expected \<longrightarrow>
       (\<forall>k :: unit \<Rightarrow> ('w, unit) prog.
          bindE (deepStrictEqual observed expected) k w = (Inl AssertionError, [], w))) \<and>
    (\<forall>pre x a i rd post rec.
       steps (events_of (psbt m faas) w) = pre @ x # ReadPSBT a i (Inr rd) # post \<longrightarrow>
       response x = Some rec \<longrightarrow>
       (post = [ConsoleError [LStr ''PSBT failed:'', LMessage AssertionError]]) = (rd \<noteq> rec)) \<and>
    (\<forall>pre x a i rd post rec.
       steps (events_of (psbtni m faas) w) = pre @ x # ReadPSBTNI a i (Inr rd) # post \<longrightarrow>
       response x = Some rec \<longrightarrow>
       (post = [ConsoleError [LStr ''PSBTNI failed:'', LMessage AssertionError]]) = (rd \<noteq> rec))"
proof -
  have "(deepStrictEqual observed expected w = (Inr (), [], w)) = (observed = expected)"
    by (simp add: deepStrictEqual_def ret_def throw_def)
  moreover have "observed \<noteq> expected \<longrightarrow>
       deepStrictEqual observed expected w = (Inl AssertionError, [], w)"
    by (simp add: deepStrictEqual_def throw_def)
  moreover have "p_asset observed \<noteq> p_asset expected \<or> p_id observed \<noteq> p_id expected \<or>
     p_state observed \<noteq> p_state expected \<or> p_psbt observed \<noteq> p_psbt expected \<longrightarrow>
       (\<forall>k :: unit \<Rightarrow> ('w, unit) prog.
          bindE (deepStrictEqual observed expected) k w = (Inl AssertionError, [], w))"
    by (auto simp add: bindE_deepStrictEqual)
  moreover have
    "(post = [ConsoleError [LStr ''PSBT failed:'', LMessage AssertionError]]) = (rd \<noteq> rec)"
    if "steps (events_of (psbt m faas) w) = pre @ x # ReadPSBT a i (Inr rd) # post"
      and "response x = Some rec" for pre x a i rd post rec
    using psbt_check[OF that(1)] that(2) by auto
  moreover have
    "(post = [ConsoleError [LStr ''PSBTNI failed:'', LMessage AssertionError]]) = (rd \<noteq> rec)"
    if "steps (events_of (psbtni m faas) w) = pre @ x # ReadPSBTNI a i (Inr rd) # post"
      and "response x = Some rec" for pre x a i rd post rec
    using psbtni_check[OF that(1)] that(2) by auto
  ultimately show ?thesis by blast
qed

theorem deepStrictEqual_records_witness:
  "p_psbt \<lparr>p_asset = ''btc'', p_id = ''1'', p_state = ''FeeAdded'',
               p_psbt = ''redirected'', p_txid = None\<rparr> \<noteq>
   p_psbt \<lparr>p_asset = ''btc'', p_id = ''1'', p_state = ''FeeAdded'',
               p_psbt = ''candidate+fee'', p_txid = None\<rparr> \<and>
   bindE (deepStrictEqual
       \<lparr>p_asset = ''btc'', p_id = ''1'', p_state = ''FeeAdded'',
               p_psbt = ''redirected'', p_txid = None\<rparr>
       \<lparr>p_asset = ''btc'', p_id = ''1'', p_state = ''FeeAdded'',
               p_psbt = ''candidate+fee'', p_txid = None\<rparr>)
     (\<lambda>_. console_log [LStr ''   '', LStr ''Signing TX with Added Fees''])
     (None :: PSBT option) =
   (Inl AssertionError, [], None) \<and>
   steps (events_of (psbt tampering (tampering_faas FAAS_URL FAAS_KEY)) None) =
     [Listunspent 0 [''???''] ''???''
        (Inr [\<lparr>u_txid = ''c0ffee'', u_vout = 1, u_amount = 1 / 2\<rparr>]),
      Createpsbt [\<lparr>i_txid = ''c0ffee'', i_vout = 1\<rparr>] [(''???'', 1 / 2)] 0 True
        (Inr ''candidate''),
      Walletprocesspsbt ''candidate'' False ''ALL'' True ''???''
        (Inr \<lparr>w_psbt = ''candidate'', w_complete = False\<rparr>)] @
     CreatePSBT ''btc'' ''candidate''
        (Inr \<lparr>p_asset = ''btc'', p_id = ''1'', p_state = ''FeeAdded'',
               p_psbt = ''candidate+fee'', p_txid = None\<rparr>) #
     ReadPSBT ''btc'' ''1''
        (Inr \<lparr>p_asset = ''btc'', p_id = ''1'', p_state = ''FeeAdded'',
               p_psbt = ''redirected'', p_txid = None\<rparr>) #
     [ConsoleError [LStr ''PSBT failed:'', LMessage AssertionError]] \<and>
   steps (events_of (psbt demo (demo_faas FAAS_URL FAAS_KEY)) None) =
     [Listunspent 0 [''???''] ''???''
        (Inr [\<lparr>u_txid = ''c0ffee'', u_vout = 1, u_amount = 1 / 2\<rparr>]),
      Createpsbt [\<lparr>i_txid = ''c0ffee'', i_vout = 1\<rparr>] [(''???'', 1 / 2)] 0 True
        (Inr ''candidate''),
      Walletprocesspsbt ''candidate'' False ''ALL'' True ''???''
        (Inr \<lparr>w_psbt = ''candidate'', w_complete = False\<rparr>)] @
     CreatePSBT ''btc'' ''candidate''
        (Inr \<lparr>p_asset = ''btc'', p_id = ''1'', p_state = ''FeeAdded'',
               p_psbt = ''candidate+fee'', p_txid = None\<rparr>) #
     ReadPSBT ''btc'' ''1''
        (Inr \<lparr>p_asset = ''btc'', p_id = ''1'', p_state = ''FeeAdded'',
               p_psbt = ''candidate+fee'', p_txid = None\<rparr>) #
     [Walletprocesspsbt ''candidate+fee'' True ''ALL'' True ''???''
        (Inr \<lparr>w_psbt = ''candidate+fee+sig(ALL)'', w_complete = False\<rparr>),
      UpdatePSBT ''btc'' ''1'' ''candidate+fee+sig(ALL)''
        (Inr \<lparr>p_asset = ''btc'', p_id = ''1'', p_state = ''Broadcast'',
               p_psbt = ''candidate+fee+sig(ALL)'', p_txid = Some ''f00d''\<rparr>),
      ReadPSBT ''btc'' ''1''
        (Inr \<lparr>p_asset = ''btc'', p_id = ''1'', p_state = ''Broadcast'',
               p_psbt = ''candidate+fee+sig(ALL)'', p_txid = Some ''f00d''\<rparr>)] \<and>
   steps (events_of (psbtni tampering (tampering_faas FAAS_URL FAAS_KEY)) None) =
     [Listunspent 0 [''???''] ''???''
        (Inr [\<lparr>u_txid = ''c0ffee'', u_vout = 1, u_amount = 1 / 2\<rparr>]),
      Createpsbt [\<lparr>i_txid = ''c0ffee'', i_vout = 1\<rparr>] [(''???'', 1 / 2)] 0 True
        (Inr ''candidate''),
      Walletprocesspsbt ''candidate'' True ''ALL|ANYONECANPAY'' True ''???''
        (Inr \<lparr>w_psbt = ''candidate+sig(ALL|ANYONECANPAY)'', w_complete = False\<rparr>)] @
     CreatePSBTNI ''btc'' ''candidate+sig(ALL|ANYONECANPAY)''
        (Inr \<lparr>p_asset = ''btc'', p_id = ''1'', p_state = ''Broadcast'',
               p_psbt = ''candidate+sig(ALL|ANYONECANPAY)+fee'', p_txid = Some ''f00d''\<rparr>) #
     ReadPSBTNI ''btc'' ''1''
        (Inr \<lparr>p_asset = ''btc'', p_id = ''1'', p_state = ''Broadcast'',
               p_psbt = ''redirected'', p_txid = Some ''f00d''\<rparr>) #
     [ConsoleError [LStr ''PSBTNI failed:'', LMessage AssertionError]] \<and>
   steps (events_of (psbtni demo (demo_faas FAAS_URL FAAS_KEY)) None) =
     [Listunspent 0 [''???''] ''???''
        (Inr [\<lparr>u_txid = ''c0ffee'', u_vout = 1, u_amount = 1 / 2\<rparr>]),
      Createpsbt [\<lparr>i_txid = ''c0ffee'', i_vout = 1\<rparr>] [(''???'', 1 / 2)] 0 True
        (Inr ''candidate''),
      Walletprocesspsbt ''candidate'' True ''ALL|ANYONECANPAY'' True ''???''
        (Inr \<lparr>w_psbt = ''candidate+sig(ALL|ANYONECANPAY)'', w_complete = False\<rparr>)] @
     CreatePSBTNI ''btc'' ''candidate+sig(ALL|ANYONECANPAY)''
        (Inr \<lparr>p_asset = ''btc'', p_id = ''1'', p_state = ''Broadcast'',
               p_psbt = ''candidate+sig(ALL|ANYONECANPAY)+fee'', p_txid = Some ''f00d''\<rparr>) #
     ReadPSBTNI ''btc'' ''1''
        (Inr \<lparr>p_asset = ''btc'', p_id = ''1'', p_state = ''Broadcast'',
               p_psbt = ''candidate+sig(ALL|ANYONECANPAY)+fee'', p_txid = Some ''f00d''\<rparr>) #
     [] \<and>
   \<lparr>p_asset = ''btc'', p_id = ''1'', p_state = ''FeeAdded'',
               p_psbt = ''redirected'', p_txid = None\<rparr> \<noteq>
   \<lparr>p_asset = ''btc'', p_id = ''1'', p_state = ''FeeAdded'',
               p_psbt = ''candidate+fee'', p_txid = None\<rparr> \<and>
   \<lparr>p_asset = ''btc'', p_id = ''1'', p_state = ''Broadcast'',
               p_psbt = ''redirected'', p_txid = Some ''f00d''\<rparr> \<noteq>
   \<lparr>p_asset = ''btc'', p_id = ''1'', p_state = ''Broadcast'',
               p_psbt = ''candidate+sig(ALL|ANYONECANPAY)+fee'', p_txid = Some ''f00d''\<rparr>"
proof -
  have tampered: "steps (events_of (psbt tampering (tampering_faas FAAS_URL FAAS_KEY)) None) =
     [Listunspent 0 [''???''] ''???''
        (Inr [\<lparr>u_txid = ''c0ffee'', u_vout = 1, u_amount = 1 / 2\<rparr>]),
      Createpsbt [\<lparr>i_txid = ''c0ffee'', i_vout = 1\<rparr>] [(''???'', 1 / 2)] 0 True
        (Inr ''candidate''),
      Walletprocesspsbt ''candidate'' False ''ALL'' True ''???''
        (Inr \<lparr>w_psbt = ''candidate'', w_complete = False\<rparr>)] @
     CreatePSBT ''btc'' ''candidate''
        (Inr \<lparr>p_asset = ''btc'', p_id = ''1'', p_state = ''FeeAdded'',
               p_psbt = ''candidate+fee'', p_txid = None\<rparr>) #
     ReadPSBT ''btc'' ''1''
        (Inr \<lparr>p_asset = ''btc'', p_id = ''1'', p_state = ''FeeAdded'',
               p_psbt = ''redirected'', p_txid = None\<rparr>) #
     [ConsoleError [LStr ''PSBT failed:'', LMessage AssertionError]]"
    by (simp add: eval)
  have passed: "steps (events_of (psbt demo (demo_faas FAAS_URL FAAS_KEY)) None) =
     [Listunspent 0 [''???''] ''???''
        (Inr [\<lparr>u_txid = ''c0ffee'', u_vout = 1, u_amount = 1 / 2\<rparr>]),
      Createpsbt [\<lparr>i_txid = ''c0ffee'', i_vout = 1\<rparr>] [(''???'', 1 / 2)] 0 True
        (Inr ''candidate''),
      Walletprocesspsbt ''candidate'' False ''ALL'' True ''???''
        (Inr \<lparr>w_psbt = ''candidate'', w_complete = False\<rparr>)] @
     CreatePSBT ''btc'' ''candidate''
        (Inr \<lparr>p_asset = ''btc'', p_id = ''1'', p_state = ''FeeAdded'',
               p_psbt = ''candidate+fee'', p_txid = None\<rparr>) #
     ReadPSBT ''btc'' ''1''
        (Inr \<lparr>p_asset = ''btc'', p_id = ''1'', p_state = ''FeeAdded'',
               p_psbt = ''candidate+fee'', p_txid = None\<rparr>) #
     [Walletprocesspsbt ''candidate+fee'' True ''ALL'' True ''???''
        (Inr \<lparr>w_psbt = ''candidate+fee+sig(ALL)'', w_complete = False\<rparr>),
      UpdatePSBT ''btc'' ''1'' ''candidate+fee+sig(ALL)''
        (Inr \<lparr>p_asset = ''btc'', p_id = ''1'', p_state = ''Broadcast'',
               p_psbt = ''candidate+fee+sig(ALL)'', p_txid = Some ''f00d''\<rparr>),
      ReadPSBT ''btc'' ''1''
        (Inr \<lparr>p_asset = ''btc'', p_id = ''1'', p_state = ''Broadcast'',
               p_psbt = ''candidate+fee+sig(ALL)'', p_txid = Some ''f00d''\<rparr>)]"
    by (simp add: eval)
  have answer: "response (CreatePSBT ''btc'' ''candidate''
        (Inr \<lparr>p_asset = ''btc'', p_id = ''1'', p_state = ''FeeAdded'',
               p_psbt = ''candidate+fee'', p_txid = None\<rparr>)) =
     Some \<lparr>p_asset = ''btc'', p_id = ''1'', p_state = ''FeeAdded'',
               p_psbt = ''candidate+fee'', p_txid = None\<rparr>"
    by simp
  have tampered_ni:
    "steps (events_of (psbtni tampering (tampering_faas FAAS_URL FAAS_KEY)) None) =
     [Listunspent 0 [''???''] ''???''
        (Inr [\<lparr>u_txid = ''c0ffee'', u_vout = 1, u_amount = 1 / 2\<rparr>]),
      Createpsbt [\<lparr>i_txid = ''c0ffee'', i_vout = 1\<rparr>] [(''???'', 1 / 2)] 0 True
        (Inr ''candidate''),
      Walletprocesspsbt ''candidate'' True ''ALL|ANYONECANPAY'' True ''???''
        (Inr \<lparr>w_psbt = ''candidate+sig(ALL|ANYONECANPAY)'', w_complete = False\<rparr>)] @
     CreatePSBTNI ''btc'' ''candidate+sig(ALL|ANYONECANPAY)''
        (Inr \<lparr>p_asset = ''btc'', p_id = ''1'', p_state = ''Broadcast'',
               p_psbt = ''candidate+sig(ALL|ANYONECANPAY)+fee'', p_txid = Some ''f00d''\<rparr>) #
     ReadPSBTNI ''btc'' ''1''
        (Inr \<lparr>p_asset = ''btc'', p_id = ''1'', p_state = ''Broadcast'',
               p_psbt = ''redirected'', p_txid = Some ''f00d''\<rparr>) #
     [ConsoleError [LStr ''PSBTNI failed:'', LMessage AssertionError]]"
    by (simp add: eval)
  have passed_ni: "steps (events_of (psbtni demo (demo_faas FAAS_URL FAAS_KEY)) None) =
     [Listunspent 0 [''???''] ''???''
        (Inr [\<lparr>u_txid = ''c0ffee'', u_vout = 1, u_amount = 1 / 2\<rparr>]),
      Createpsbt [\<lparr>i_txid = ''c0ffee'', i_vout = 1\<rparr>] [(''???'', 1 / 2)] 0 True
        (Inr ''candidate''),
      Walletprocesspsbt ''candidate'' True ''ALL|ANYONECANPAY'' True ''???''
        (Inr \<lparr>w_psbt = ''candidate+sig(ALL|ANYONECANPAY)'', w_complete = False\<rparr>)] @
     CreatePSBTNI ''btc'' ''candidate+sig(ALL|ANYONECANPAY)''
        (Inr \<lparr>p_asset = ''btc'', p_id = ''1'', p_state = ''Broadcast'',
               p_psbt = ''candidate+sig(ALL|ANYONECANPAY)+fee'', p_txid = Some ''f00d''\<rparr>) #
     ReadPSBTNI ''btc'' ''1''
        (Inr \<lparr>p_asset = ''btc'', p_id = ''1'', p_state = ''Broadcast'',
               p_psbt = ''candidate+sig(ALL|ANYONECANPAY)+fee'', p_txid = Some ''f00d''\<rparr>) #
     []"
    by (simp add: eval)
  have answer_ni: "response (CreatePSBTNI ''btc'' ''candidate+sig(ALL|ANYONECANPAY)''
        (Inr \<lparr>p_asset = ''btc'', p_id = ''1'', p_state = ''Broadcast'',
               p_psbt = ''candidate+sig(ALL|ANYONECANPAY)+fee'', p_txid = Some ''f00d''\<rparr>)) =
     Some \<lparr>p_asset = ''btc'', p_id = ''1'', p_state = ''Broadcast'',
               p_psbt = ''candidate+sig(ALL|ANYONECANPAY)+fee'', p_txid = Some ''f00d''\<rparr>"
    by simp
  note at_tampering = deepStrictEqual_records[where
        observed = "\<lparr>p_asset = ''btc'', p_id = ''1'', p_state = ''FeeAdded'',
               p_psbt = ''redirected'', p_txid = None\<rparr>"
        and expected = "\<lparr>p_asset = ''btc'', p_id = ''1'', p_state = ''FeeAdded'',
               p_psbt = ''candidate+fee'', p_txid = None\<rparr>"
        and w = "None :: PSBT option" and m = tampering
        and faas = "tampering_faas FAAS_URL FAAS_KEY"]
  note at_demo = deepStrictEqual_records[where
        observed = "\<lparr>p_asset = ''btc'', p_id = ''1'', p_state = ''FeeAdded'',
               p_psbt = ''candidate+fee'', p_txid = None\<rparr>"
        and expected = "\<lparr>p_asset = ''btc'', p_id = ''1'', p_state = ''FeeAdded'',
               p_psbt = ''candidate+fee'', p_txid = None\<rparr>"
        and w = "None :: PSBT option" and m = demo
        and faas = "demo_faas FAAS_URL FAAS_KEY"]
  note halts = at_tampering[THEN conjunct2, THEN conjunct2, THEN conjunct1]
    and report = at_tampering[THEN conjunct2, THEN conjunct2, THEN conjunct2, THEN conjunct1,
      rule_format, OF tampered answer]
    and quiet = at_demo[THEN conjunct2, THEN conjunct2, THEN conjunct2, THEN conjunct1,
      rule_format, OF passed answer]
    and report_ni = at_tampering[THEN conjunct2, THEN conjunct2, THEN conjunct2, THEN conjunct2,
      rule_format, OF tampered_ni answer_ni]
    and quiet_ni = at_demo[THEN conjunct2, THEN conjunct2, THEN conjunct2, THEN conjunct2,
      rule_format, OF passed_ni answer_ni]
  from halts report quiet report_ni quiet_ni tampered passed tampered_ni passed_ni
  show ?thesis by simp
qed

section \<open>Signing in the interactive flow\<close>

text \<open>
  C2. In any run of the interactive flow, whatever precedes a signing call (a call of
  \<open>walletprocesspsbt\<close> with \<open>sign = true\<close>) is exactly: the candidate was built unsigned,
  \<open>createPSBT\<close> answered with a record, and \<open>readPSBT\<close> under that record's asset and id
  returned that same record, so the check has passed; the signature is over the blob of
  that record, with sighash "ALL". And when the re-fetched record differs from the answer
  of \<open>createPSBT\<close>, the only step that follows is the failure report: no signature.
\<close>

theorem psbt_signs_only_after_check:
  "(\<forall>pre blob sh d l rep post.
      steps (events_of (psbt m faas) w) = pre @ Walletprocesspsbt blob True sh d l rep # post \<longrightarrow>
      sh = ''ALL'' \<and>
      (\<exists>u us cand c fee. blob = p_psbt fee \<and> pre =
         [Listunspent 0 [OUTPUT_ADDRESS] WALLET_LABEL (Inr (u # us)),
          Createpsbt [\<lparr>i_txid = u_txid u, i_vout = u_vout u\<rparr>] [(OUTPUT_ADDRESS, u_amount u)]
            0 True (Inr cand),
          Walletprocesspsbt cand False ''ALL'' True WALLET_LABEL (Inr c),
          CreatePSBT (ASSET_BTC m) (w_psbt c) (Inr fee),
          ReadPSBT (p_asset fee) (p_id fee) (Inr fee)])) \<and>
   (\<forall>pre a b fee a' i rd post.
      steps (events_of (psbt m faas) w) =
        pre @ CreatePSBT a b (Inr fee) # ReadPSBT a' i (Inr rd) # post \<longrightarrow>
      rd \<noteq> fee \<longrightarrow>
      post = [ConsoleError [LStr ''PSBT failed:'', LMessage AssertionError]])"
proof (rule conjI; intro allI impI)
  fix pre blob sh d l rep post
  assume "steps (events_of (psbt m faas) w) =
    pre @ Walletprocesspsbt blob True sh d l rep # post"
  then show "sh = ''ALL'' \<and>
      (\<exists>u us cand c fee. blob = p_psbt fee \<and> pre =
         [Listunspent 0 [OUTPUT_ADDRESS] WALLET_LABEL (Inr (u # us)),
          Createpsbt [\<lparr>i_txid = u_txid u, i_vout = u_vout u\<rparr>] [(OUTPUT_ADDRESS, u_amount u)]
            0 True (Inr cand),
          Walletprocesspsbt cand False ''ALL'' True WALLET_LABEL (Inr c),
          CreatePSBT (ASSET_BTC m) (w_psbt c) (Inr fee),
          ReadPSBT (p_asset fee) (p_id fee) (Inr fee)])"
    by (rule psbt_sign_pre)
next
  fix pre a b fee a' i rd post
  assume "steps (events_of (psbt m faas) w) =
    pre @ CreatePSBT a b (Inr fee) # ReadPSBT a' i (Inr rd) # post" and "rd \<noteq> fee"
  with psbt_check[of m faas w pre "CreatePSBT a b (Inr fee)" a' i rd post]
  show "post = [ConsoleError [LStr ''PSBT failed:'', LMessage AssertionError]]"
    by auto
qed

theorem psbt_signs_only_after_check_witness:
  "steps (events_of (psbt demo (demo_faas FAAS_URL FAAS_KEY)) None) =
     [Listunspent 0 [''???''] ''???''
        (Inr [\<lparr>u_txid = ''c0ffee'', u_vout = 1, u_amount = 1 / 2\<rparr>]),
      Createpsbt [\<lparr>i_txid = ''c0ffee'', i_vout = 1\<rparr>] [(''???'', 1 / 2)] 0 True
        (Inr ''candidate''),
      Walletprocesspsbt ''candidate'' False ''ALL'' True ''???''
        (Inr \<lparr>w_psbt = ''candidate'', w_complete = False\<rparr>),
      CreatePSBT ''btc'' ''candidate''
        (Inr \<lparr>p_asset = ''btc'', p_id = ''1'', p_state = ''FeeAdded'',
               p_psbt = ''candidate+fee'', p_txid = None\<rparr>),
      ReadPSBT ''btc'' ''1''
        (Inr \<lparr>p_asset = ''btc'', p_id = ''1'', p_state = ''FeeAdded'',
               p_psbt = ''candidate+fee'', p_txid = None\<rparr>)] @
     Walletprocesspsbt ''candidate+fee'' True ''ALL'' True ''???''
        (Inr \<lparr>w_psbt = ''candidate+fee+sig(ALL)'', w_complete = False\<rparr>) #
     [UpdatePSBT ''btc'' ''1'' ''candidate+fee+sig(ALL)''
        (Inr \<lparr>p_asset = ''btc'', p_id = ''1'', p_state = ''Broadcast'',
               p_psbt = ''candidate+fee+sig(ALL)'', p_txid = Some ''f00d''\<rparr>),
      ReadPSBT ''btc'' ''1''
        (Inr \<lparr>p_asset = ''btc'', p_id = ''1'', p_state = ''Broadcast'',
               p_psbt = ''candidate+fee+sig(ALL)'', p_txid = Some ''f00d''\<rparr>)] \<and>
   ''ALL'' = ''ALL'' \<and>
   steps (events_of (psbt tampering (tampering_faas FAAS_URL FAAS_KEY)) None) =
     [Listunspent 0 [''???''] ''???''
        (Inr [\<lparr>u_txid = ''c0ffee'', u_vout = 1, u_amount = 1 / 2\<rparr>]),
      Createpsbt [\<lparr>i_txid = ''c0ffee'', i_vout = 1\<rparr>] [(''???'', 1 / 2)] 0 True
        (Inr ''candidate''),
      Walletprocesspsbt ''candidate'' False ''ALL'' True ''???''
        (Inr \<lparr>w_psbt = ''candidate'', w_complete = False\<rparr>)] @
     CreatePSBT ''btc'' ''candidate''
        (Inr \<lparr>p_asset = ''btc'', p_id = ''1'', p_state = ''FeeAdded'',
               p_psbt = ''candidate+fee'', p_txid = None\<rparr>) #
     ReadPSBT ''btc'' ''1''
        (Inr \<lparr>p_asset = ''btc'', p_id = ''1'', p_state = ''FeeAdded'',
               p_psbt = ''redirected'', p_txid = None\<rparr>) #
     [ConsoleError [LStr ''PSBT failed:'', LMessage AssertionError]] \<and>
   \<lparr>p_asset = ''btc'', p_id = ''1'', p_state = ''FeeAdded'',
               p_psbt = ''redirected'', p_txid = None\<rparr> \<noteq>
   \<lparr>p_asset = ''btc'', p_id = ''1'', p_state = ''FeeAdded'',
               p_psbt = ''candidate+fee'', p_txid = None\<rparr>"
proof -
  have signed: "steps (events_of (psbt demo (demo_faas FAAS_URL FAAS_KEY)) None) =
     [Listunspent 0 [''???''] ''???''
        (Inr [\<lparr>u_txid = ''c0ffee'', u_vout = 1, u_amount = 1 / 2\<rparr>]),
      Createpsbt [\<lparr>i_txid = ''c0ffee'', i_vout = 1\<rparr>] [(''???'', 1 / 2)] 0 True
        (Inr ''candidate''),
      Walletprocesspsbt ''candidate'' False ''ALL'' True ''???''
        (Inr \<lparr>w_psbt = ''candidate'', w_complete = False\<rparr>),
      CreatePSBT ''btc'' ''candidate''
        (Inr \<lparr>p_asset = ''btc'', p_id = ''1'', p_state = ''FeeAdded'',
               p_psbt = ''candidate+fee'', p_txid = None\<rparr>),
      ReadPSBT ''btc'' ''1''
        (Inr \<lparr>p_asset = ''btc'', p_id = ''1'', p_state = ''FeeAdded'',
               p_psbt = ''candidate+fee'', p_txid = None\<rparr>)] @
     Walletprocesspsbt ''candidate+fee'' True ''ALL'' True ''???''
        (Inr \<lparr>w_psbt = ''candidate+fee+sig(ALL)'', w_complete = False\<rparr>) #
     [UpdatePSBT ''btc'' ''1'' ''candidate+fee+sig(ALL)''
        (Inr \<lparr>p_asset = ''btc'', p_id = ''1'', p_state = ''Broadcast'',
               p_psbt = ''candidate+fee+sig(ALL)'', p_txid = Some ''f00d''\<rparr>),
      ReadPSBT ''btc'' ''1''
        (Inr \<lparr>p_asset = ''btc'', p_id = ''1'', p_state = ''Broadcast'',
               p_psbt = ''candidate+fee+sig(ALL)'', p_txid = Some ''f00d''\<rparr>)]"
    by (simp add: eval)
  have failed: "steps (events_of (psbt tampering (tampering_faas FAAS_URL FAAS_KEY)) None) =
     [Listunspent 0 [''???''] ''???''
        (Inr [\<lparr>u_txid = ''c0ffee'', u_vout = 1, u_amount = 1 / 2\<rparr>]),
      Createpsbt [\<lparr>i_txid = ''c0ffee'', i_vout = 1\<rparr>] [(''???'', 1 / 2)] 0 True
        (Inr ''candidate''),
      Walletprocesspsbt ''candidate'' False ''ALL'' True ''???''
        (Inr \<lparr>w_psbt = ''candidate'', w_complete = False\<rparr>)] @
     CreatePSBT ''btc'' ''candidate''
        (Inr \<lparr>p_asset = ''btc'', p_id = ''1'', p_state = ''FeeAdded'',
               p_psbt = ''candidate+fee'', p_txid = None\<rparr>) #
     ReadPSBT ''btc'' ''1''
        (Inr \<lparr>p_asset = ''btc'', p_id = ''1'', p_state = ''FeeAdded'',
               p_psbt = ''redirected'', p_txid = None\<rparr>) #
     [ConsoleError [LStr ''PSBT failed:'', LMessage AssertionError]]"
    by (simp add: eval)
  have differ: "\<lparr>p_asset = ''btc'', p_id = ''1'', p_state = ''FeeAdded'',
               p_psbt = ''redirected'', p_txid = None\<rparr> \<noteq>
     \<lparr>p_asset = ''btc'', p_id = ''1'', p_state = ''FeeAdded'',
               p_psbt = ''candidate+fee'', p_txid = None\<rparr>"
    by simp
  note psbt_signs_only_after_check[of demo "demo_faas FAAS_URL FAAS_KEY" None,
      THEN conjunct1, rule_format, OF signed, THEN conjunct1]
    psbt_signs_only_after_check[of tampering "tampering_faas FAAS_URL FAAS_KEY" None,
      THEN conjunct2, rule_format, OF failed differ]
  with signed failed differ show ?thesis by simp
qed

section \<open>Failures\<close>

text \<open>
  C3, as the code has it. A rejected call or a failed check inside a flow ends that flow
  and nothing more: the flow itself always returns normally (the error is caught and
  reported), its calls are an initial part of the fixed sequence of calls of the flow (so
  none is repeated), a rejected call is followed by the failure report and nothing else, a
  re-fetched record that differs from the sponsor's answer just before is followed by the
  failure report and nothing else, and nothing follows a failure report. What \<open>run\<close> does
  after the flow has returned is not part of this statement.
\<close>

theorem flow_failure_ends_flow:
  "outcome_of (psbt m faas) w = Inr () \<and>
   outcome_of (psbtni m faas) w = Inr () \<and>
   prefix (List.map_filter call_name (steps (events_of (psbt m faas) w))) psbt_calls \<and>
   prefix (List.map_filter call_name (steps (events_of (psbtni m faas) w))) psbtni_calls \<and>
   (\<forall>pre ev post msg. steps (events_of (psbt m faas) w) = pre @ ev # post \<longrightarrow>
      rejection ev = Some msg \<longrightarrow>
      post = [ConsoleError [LStr ''PSBT failed:'', LMessage (Error msg)]]) \<and>
   (\<forall>pre ev post msg. steps (events_of (psbtni m faas) w) = pre @ ev # post \<longrightarrow>
      rejection ev = Some msg \<longrightarrow>
      post = [ConsoleError [LStr ''PSBTNI failed:'', LMessage (Error msg)]]) \<and>
   (\<forall>pre x a i rd post rec. steps (events_of (psbt m faas) w) =
        pre @ x # ReadPSBT a i (Inr rd) # post \<longrightarrow>
      response x = Some rec \<longrightarrow> rd \<noteq> rec \<longrightarrow>
      post = [ConsoleError [LStr ''PSBT failed:'', LMessage AssertionError]]) \<and>
   (\<forall>pre x a i rd post rec. steps (events_of (psbtni m faas) w) =
        pre @ x # ReadPSBTNI a i (Inr rd) # post \<longrightarrow>
      response x = Some rec \<longrightarrow> rd \<noteq> rec \<longrightarrow>
      post = [ConsoleError [LStr ''PSBTNI failed:'', LMessage AssertionError]]) \<and>
   (\<forall>pre args post. steps (events_of (psbt m faas) w) = pre @ ConsoleError args # post \<longrightarrow>
      post = []) \<and>
   (\<forall>pre args post. steps (events_of (psbtni m faas) w) = pre @ ConsoleError args # post \<longrightarrow>
      post = [])"
proof (intro conjI allI impI)
  show "outcome_of (psbt m faas) w = Inr ()" by (rule psbt_outcome)
  show "outcome_of (psbtni m faas) w = Inr ()" by (rule psbtni_outcome)
  show "prefix (List.map_filter call_name (steps (events_of (psbt m faas) w))) psbt_calls"
    by (rule psbt_call_names)
  show "prefix (List.map_filter call_name (steps (events_of (psbtni m faas) w))) psbtni_calls"
    by (rule psbtni_call_names)
next
  fix pre ev post msg
  assume "steps (events_of (psbt m faas) w) = pre @ ev # post" "rejection ev = Some msg"
  then show "post = [ConsoleError [LStr ''PSBT failed:'', LMessage (Error msg)]]"
    by (rule psbt_rejection)
next
  fix pre ev post msg
  assume "steps (events_of (psbtni m faas) w) = pre @ ev # post" "rejection ev = Some msg"
  then show "post = [ConsoleError [LStr ''PSBTNI failed:'', LMessage (Error msg)]]"
    by (rule psbtni_rejection)
next
  fix pre x a i rd post rec
  assume "steps (events_of (psbt m faas) w) = pre @ x # ReadPSBT a i (Inr rd) # post"
    and "response x = Some rec" "rd \<noteq> rec"
  with psbt_check[of m faas w pre x a i rd post]
  show "post = [ConsoleError [LStr ''PSBT failed:'', LMessage AssertionError]]"
    by auto
next
  fix pre x a i rd post rec
  assume "steps (events_of (psbtni m faas) w) = pre @ x # ReadPSBTNI a i (Inr rd) # post"
    and "response x = Some rec" "rd \<noteq> rec"
  with psbtni_check[of m faas w pre x a i rd post]
  show "post = [ConsoleError [LStr ''PSBTNI failed:'', LMessage AssertionError]]"
    by auto
next
  fix pre args post
  assume "steps (events_of (psbt m faas) w) = pre @ ConsoleError args # post"
  then show "post = []" by (rule psbt_report_last)
next
  fix pre args post
  assume "steps (events_of (psbtni m faas) w) = pre @ ConsoleError args # post"
  then show "post = []" by (rule psbtni_report_last)
qed

theorem flow_failure_ends_flow_witness:
  "steps (events_of (psbt offline (offline_faas FAAS_URL FAAS_KEY)) None) =
     [Listunspent 0 [''???''] ''???''
        (Inr [\<lparr>u_txid = ''c0ffee'', u_vout = 1, u_amount = 1 / 2\<rparr>]),
      Createpsbt [\<lparr>i_txid = ''c0ffee'', i_vout = 1\<rparr>] [(''???'', 1 / 2)] 0 True
        (Inr ''candidate''),
      Walletprocesspsbt ''candidate'' False ''ALL'' True ''???''
        (Inr \<lparr>w_psbt = ''candidate'', w_complete = False\<rparr>)] @
     CreatePSBT ''btc'' ''candidate'' (Inl ''network down'') #
     [ConsoleError [LStr ''PSBT failed:'', LMessage (Error ''network down'')]] \<and>
   rejection (CreatePSBT ''btc'' ''candidate'' (Inl ''network down'')) = Some ''network down'' \<and>
   steps (events_of (psbtni tampering (tampering_faas FAAS_URL FAAS_KEY)) None) =
     [Listunspent 0 [''???''] ''???''
        (Inr [\<lparr>u_txid = ''c0ffee'', u_vout = 1, u_amount = 1 / 2\<rparr>]),
      Createpsbt [\<lparr>i_txid = ''c0ffee'', i_vout = 1\<rparr>] [(''???'', 1 / 2)] 0 True
        (Inr ''candidate''),
      Walletprocesspsbt ''candidate'' True ''ALL|ANYONECANPAY'' True ''???''
        (Inr \<lparr>w_psbt = ''candidate+sig(ALL|ANYONECANPAY)'', w_complete = False\<rparr>)] @
     CreatePSBTNI ''btc'' ''candidate+sig(ALL|ANYONECANPAY)''
        (Inr \<lparr>p_asset = ''btc'', p_id = ''1'', p_state = ''Broadcast'',
               p_psbt = ''candidate+sig(ALL|ANYONECANPAY)+fee'', p_txid = Some ''f00d''\<rparr>) #
     ReadPSBTNI ''btc'' ''1''
        (Inr \<lparr>p_asset = ''btc'', p_id = ''1'', p_state = ''Broadcast'',
               p_psbt = ''redirected'', p_txid = Some ''f00d''\<rparr>) #
     [ConsoleError [LStr ''PSBTNI failed:'', LMessage AssertionError]] \<and>
   response (CreatePSBTNI ''btc'' ''candidate+sig(ALL|ANYONECANPAY)''
        (Inr \<lparr>p_asset = ''btc'', p_id = ''1'', p_state = ''Broadcast'',
               p_psbt = ''candidate+sig(ALL|ANYONECANPAY)+fee'', p_txid = Some ''f00d''\<rparr>)) =
     Some \<lparr>p_asset = ''btc'', p_id = ''1'', p_state = ''Broadcast'',
               p_psbt = ''candidate+sig(ALL|ANYONECANPAY)+fee'', p_txid = Some ''f00d''\<rparr> \<and>
   \<lparr>p_asset = ''btc'', p_id = ''1'', p_state = ''Broadcast'',
               p_psbt = ''redirected'', p_txid = Some ''f00d''\<rparr> \<noteq>
   \<lparr>p_asset = ''btc'', p_id = ''1'', p_state = ''Broadcast'',
               p_psbt = ''candidate+sig(ALL|ANYONECANPAY)+fee'', p_txid = Some ''f00d''\<rparr> \<and>
   outcome_of (psbtni tampering (tampering_faas FAAS_URL FAAS_KEY)) None = Inr ()"
proof -
  have down: "steps (events_of (psbt offline (offline_faas FAAS_URL FAAS_KEY)) None) =
     [Listunspent 0 [''???''] ''???''
        (Inr [\<lparr>u_txid = ''c0ffee'', u_vout = 1, u_amount = 1 / 2\<rparr>]),
      Createpsbt [\<lparr>i_txid = ''c0ffee'', i_vout = 1\<rparr>] [(''???'', 1 / 2)] 0 True
        (Inr ''candidate''),
      Walletprocesspsbt ''candidate'' False ''ALL'' True ''???''
        (Inr \<lparr>w_psbt = ''candidate'', w_complete = False\<rparr>)] @
     CreatePSBT ''btc'' ''candidate'' (Inl ''network down'') #
     [ConsoleError [LStr ''PSBT failed:'', LMessage (Error ''network down'')]]"
    by (simp add: eval)
  have rejected: "rejection (CreatePSBT ''btc'' ''candidate'' (Inl ''network down'')) = Some ''network down''"
    by simp
  have failed: "steps (events_of (psbtni tampering (tampering_faas FAAS_URL FAAS_KEY)) None) =
     [Listunspent 0 [''???''] ''???''
        (Inr [\<lparr>u_txid = ''c0ffee'', u_vout = 1, u_amount = 1 / 2\<rparr>]),
      Createpsbt [\<lparr>i_txid = ''c0ffee'', i_vout = 1\<rparr>] [(''???'', 1 / 2)] 0 True
        (Inr ''candidate''),
      Walletprocesspsbt ''candidate'' True ''ALL|ANYONECANPAY'' True ''???''
        (Inr \<lparr>w_psbt = ''candidate+sig(ALL|ANYONECANPAY)'', w_complete = False\<rparr>)] @
     CreatePSBTNI ''btc'' ''candidate+sig(ALL|ANYONECANPAY)''
        (Inr \<lparr>p_asset = ''btc'', p_id = ''1'', p_state = ''Broadcast'',
               p_psbt = ''candidate+sig(ALL|ANYONECANPAY)+fee'', p_txid = Some ''f00d''\<rparr>) #
     ReadPSBTNI ''btc'' ''1''
        (Inr \<lparr>p_asset = ''btc'', p_id = ''1'', p_state = ''Broadcast'',
               p_psbt = ''redirected'', p_txid = Some ''f00d''\<rparr>) #
     [ConsoleError [LStr ''PSBTNI failed:'', LMessage AssertionError]]"
    by (simp add: eval)
  have answer: "response (CreatePSBTNI ''btc'' ''candidate+sig(ALL|ANYONECANPAY)''
        (Inr \<lparr>p_asset = ''btc'', p_id = ''1'', p_state = ''Broadcast'',
               p_psbt = ''candidate+sig(ALL|ANYONECANPAY)+fee'', p_txid = Some ''f00d''\<rparr>)) =
     Some \<lparr>p_asset = ''btc'', p_id = ''1'', p_state = ''Broadcast'',
               p_psbt = ''candidate+sig(ALL|ANYONECANPAY)+fee'', p_txid = Some ''f00d''\<rparr>"
    by simp
  have differ: "\<lparr>p_asset = ''btc'', p_id = ''1'', p_state = ''Broadcast'',
               p_psbt = ''redirected'', p_txid = Some ''f00d''\<rparr> \<noteq>
     \<lparr>p_asset = ''btc'', p_id = ''1'', p_state = ''Broadcast'',
               p_psbt = ''candidate+sig(ALL|ANYONECANPAY)+fee'', p_txid = Some ''f00d''\<rparr>"
    by simp
  note flow_failure_ends_flow[of offline "offline_faas FAAS_URL FAAS_KEY" None,
      THEN conjunct2, THEN conjunct2, THEN conjunct2, THEN conjunct2, THEN conjunct1,
      rule_format, OF down rejected]
    flow_failure_ends_flow[of tampering "tampering_faas FAAS_URL FAAS_KEY" None,
      THEN conjunct2, THEN conjunct2, THEN conjunct2, THEN conjunct2, THEN conjunct2,
      THEN conjunct2, THEN conjunct2, THEN conjunct1, rule_format, OF failed answer differ]
    flow_failure_ends_flow[of tampering "tampering_faas FAAS_URL FAAS_KEY" None,
      THEN conjunct2, THEN conjunct1]
  with down rejected failed answer differ show ?thesis by simp
qed

text \<open>
  C3, as the spec has it, fails: the error does not end the run. With a sponsor whose
  re-fetched record differs from its answer, \<open>psbt\<close> reports the failure, and \<open>run\<close> then
  goes on to call \<open>readPSBTs\<close> and \<open>readPSBTNIs\<close>, and the entry point prints "Done.".
\<close>

theorem main_continues_after_failure:
  "steps (fst (main tampering [''node'', ''main.js'', ''psbt''] None)) =
     [NewFaas ''https://graphql.frictionless.money/'' ''???'',
      ReadApiKey (Inr ''???''), ReadCredit (Inr 100), ReadFee ''btc'' (Inr 2),
      ReadRate ''btc_usd'' (Inr 50000),
      Listunspent 0 [''???''] ''???''
        (Inr [\<lparr>u_txid = ''c0ffee'', u_vout = 1, u_amount = 1 / 2\<rparr>]),
      Createpsbt [\<lparr>i_txid = ''c0ffee'', i_vout = 1\<rparr>] [(''???'', 1 / 2)] 0 True
        (Inr ''candidate''),
      Walletprocesspsbt ''candidate'' False ''ALL'' True ''???''
        (Inr \<lparr>w_psbt = ''candidate'', w_complete = False\<rparr>),
      CreatePSBT ''btc'' ''candidate''
        (Inr \<lparr>p_asset = ''btc'', p_id = ''1'', p_state = ''FeeAdded'',
               p_psbt = ''candidate+fee'', p_txid = None\<rparr>),
      ReadPSBT ''btc'' ''1''
        (Inr \<lparr>p_asset = ''btc'', p_id = ''1'', p_state = ''FeeAdded'',
               p_psbt = ''redirected'', p_txid = None\<rparr>),
      ConsoleError [LStr ''PSBT failed:'', LMessage AssertionError],
      ReadPSBTs
        (Inr [\<lparr>p_asset = ''btc'', p_id = ''1'', p_state = ''FeeAdded'',
               p_psbt = ''candidate+fee'', p_txid = None\<rparr>]),
      ReadPSBTNIs (Inr [])] \<and>
   last (fst (main tampering [''node'', ''main.js'', ''psbt''] None)) = ConsoleLog [LStr ''Done.'']"
  by (simp add: eval)

section \<open>Completion\<close>




section \<open>The sighash of each flow\<close>

text \<open>
  C5. In the interactive flow a signing call uses sighash "ALL" and comes after the
  sponsor's answer to \<open>createPSBT\<close>, whose blob it signs; what is then submitted with
  \<open>updatePSBT\<close> is the result of that signing. In the non-interactive flow every call of
  \<open>walletprocesspsbt\<close> signs, with sighash "ALL|ANYONECANPAY", the candidate that
  \<open>createpsbt\<close> returned, before any call to the sponsor; what is submitted with
  \<open>createPSBTNI\<close> is the result of that signing.
\<close>

theorem sighash_by_step:
  "(\<forall>pre blob sh d l rep post.
      steps (events_of (psbt m faas) w) = pre @ Walletprocesspsbt blob True sh d l rep # post \<longrightarrow>
      sh = ''ALL'' \<and>
      (\<exists>a b fee. CreatePSBT a b (Inr fee) \<in> set pre \<and> blob = p_psbt fee)) \<and>
   (\<forall>a i b rp. UpdatePSBT a i b rp \<in> set (steps (events_of (psbt m faas) w)) \<longrightarrow>
      (\<exists>orig fee p.
         CreatePSBT (ASSET_BTC m) orig (Inr fee) \<in> set (steps (events_of (psbt m faas) w)) \<and>
         Walletprocesspsbt (p_psbt fee) True ''ALL'' True WALLET_LABEL (Inr p)
           \<in> set (steps (events_of (psbt m faas) w)) \<and> b = w_psbt p)) \<and>
   (\<forall>pre blob s sh d l rep post.
      steps (events_of (psbtni m faas) w) = pre @ Walletprocesspsbt blob s sh d l rep # post \<longrightarrow>
      s \<and> sh = ''ALL|ANYONECANPAY'' \<and>
      (\<exists>u us. pre =
         [Listunspent 0 [OUTPUT_ADDRESS] WALLET_LABEL (Inr (u # us)),
          Createpsbt [\<lparr>i_txid = u_txid u, i_vout = u_vout u\<rparr>] [(OUTPUT_ADDRESS, u_amount u)]
            0 True (Inr blob)])) \<and>
   (\<forall>a b rp. CreatePSBTNI a b rp \<in> set (steps (events_of (psbtni m faas) w)) \<longrightarrow>
      (\<exists>cand p. Walletprocesspsbt cand True ''ALL|ANYONECANPAY'' True WALLET_LABEL (Inr p)
                 \<in> set (steps (events_of (psbtni m faas) w)) \<and> b = w_psbt p))"
proof -
  have "sh = ''ALL'' \<and> (\<exists>a b fee. CreatePSBT a b (Inr fee) \<in> set pre \<and> blob = p_psbt fee)"
    if "steps (events_of (psbt m faas) w) = pre @ Walletprocesspsbt blob True sh d l rep # post"
    for pre blob sh d l rep post
    using psbt_sign_pre[OF that] by auto
  moreover have "\<exists>orig fee p.
         CreatePSBT (ASSET_BTC m) orig (Inr fee) \<in> set (steps (events_of (psbt m faas) w)) \<and>
         Walletprocesspsbt (p_psbt fee) True ''ALL'' True WALLET_LABEL (Inr p)
           \<in> set (steps (events_of (psbt m faas) w)) \<and> b = w_psbt p"
    if "UpdatePSBT a i b rp \<in> set (steps (events_of (psbt m faas) w))" for a i b rp
    using psbt_update_args[OF that] by (elim exE conjE) (intro exI conjI; assumption)
  moreover have "s \<and> sh = ''ALL|ANYONECANPAY'' \<and>
      (\<exists>u us. pre =
         [Listunspent 0 [OUTPUT_ADDRESS] WALLET_LABEL (Inr (u # us)),
          Createpsbt [\<lparr>i_txid = u_txid u, i_vout = u_vout u\<rparr>] [(OUTPUT_ADDRESS, u_amount u)]
            0 True (Inr blob)])"
    if "steps (events_of (psbtni m faas) w) = pre @ Walletprocesspsbt blob s sh d l rep # post"
    for pre blob s sh d l rep post
    using psbtni_sign_pre[OF that] .
  moreover have "\<exists>cand p. Walletprocesspsbt cand True ''ALL|ANYONECANPAY'' True WALLET_LABEL (Inr p)
                 \<in> set (steps (events_of (psbtni m faas) w)) \<and> b = w_psbt p"
    if "CreatePSBTNI a b rp \<in> set (steps (events_of (psbtni m faas) w))" for a b rp
    using psbtni_submit_args[OF that] by (elim exE conjE) (intro exI conjI; assumption)
  ultimately show ?thesis by blast
qed

theorem sighash_by_step_witness:
  "steps (events_of (psbt demo (demo_faas FAAS_URL FAAS_KEY)) None) =
     [Listunspent 0 [''???''] ''???''
        (Inr [\<lparr>u_txid = ''c0ffee'', u_vout = 1, u_amount = 1 / 2\<rparr>]),
      Createpsbt [\<lparr>i_txid = ''c0ffee'', i_vout = 1\<rparr>] [(''???'', 1 / 2)] 0 True
        (Inr ''candidate''),
      Walletprocesspsbt ''candidate'' False ''ALL'' True ''???''
        (Inr \<lparr>w_psbt = ''candidate'', w_complete = False\<rparr>),
      CreatePSBT ''btc'' ''candidate''
        (Inr \<lparr>p_asset = ''btc'', p_id = ''1'', p_state = ''FeeAdded'',
               p_psbt = ''candidate+fee'', p_txid = None\<rparr>),
      ReadPSBT ''btc'' ''1''
        (Inr \<lparr>p_asset = ''btc'', p_id = ''1'', p_state = ''FeeAdded'',
               p_psbt = ''candidate+fee'', p_txid = None\<rparr>)] @
     Walletprocesspsbt ''candidate+fee'' True ''ALL'' True ''???''
        (Inr \<lparr>w_psbt = ''candidate+fee+sig(ALL)'', w_complete = False\<rparr>) #
     [UpdatePSBT ''btc'' ''1'' ''candidate+fee+sig(ALL)''
        (Inr \<lparr>p_asset = ''btc'', p_id = ''1'', p_state = ''Broadcast'',
               p_psbt = ''candidate+fee+sig(ALL)'', p_txid = Some ''f00d''\<rparr>),
      ReadPSBT ''btc'' ''1''
        (Inr \<lparr>p_asset = ''btc'', p_id = ''1'', p_state = ''Broadcast'',
               p_psbt = ''candidate+fee+sig(ALL)'', p_txid = Some ''f00d''\<rparr>)] \<and>
   steps (events_of (psbtni demo (demo_faas FAAS_URL FAAS_KEY)) None) =
     [Listunspent 0 [''???''] ''???''
        (Inr [\<lparr>u_txid = ''c0ffee'', u_vout = 1, u_amount = 1 / 2\<rparr>]),
      Createpsbt [\<lparr>i_txid = ''c0ffee'', i_vout = 1\<rparr>] [(''???'', 1 / 2)] 0 True
        (Inr ''candidate'')] @
     Walletprocesspsbt ''candidate'' True ''ALL|ANYONECANPAY'' True ''???''
        (Inr \<lparr>w_psbt = ''candidate+sig(ALL|ANYONECANPAY)'', w_complete = False\<rparr>) #
     [CreatePSBTNI ''btc'' ''candidate+sig(ALL|ANYONECANPAY)''
        (Inr \<lparr>p_asset = ''btc'', p_id = ''1'', p_state = ''Broadcast'',
               p_psbt = ''candidate+sig(ALL|ANYONECANPAY)+fee'', p_txid = Some ''f00d''\<rparr>),
      ReadPSBTNI ''btc'' ''1''
        (Inr \<lparr>p_asset = ''btc'', p_id = ''1'', p_state = ''Broadcast'',
               p_psbt = ''candidate+sig(ALL|ANYONECANPAY)+fee'', p_txid = Some ''f00d''\<rparr>)] \<and>
   ''ALL'' = ''ALL'' \<and> ''ALL|ANYONECANPAY'' = ''ALL|ANYONECANPAY''"
proof -
  have interactive: "steps (events_of (psbt demo (demo_faas FAAS_URL FAAS_KEY)) None) =
     [Listunspent 0 [''???''] ''???''
        (Inr [\<lparr>u_txid = ''c0ffee'', u_vout = 1, u_amount = 1 / 2\<rparr>]),
      Createpsbt [\<lparr>i_txid = ''c0ffee'', i_vout = 1\<rparr>] [(''???'', 1 / 2)] 0 True
        (Inr ''candidate''),
      Walletprocesspsbt ''candidate'' False ''ALL'' True ''???''
        (Inr \<lparr>w_psbt = ''candidate'', w_complete = False\<rparr>),
      CreatePSBT ''btc'' ''candidate''
        (Inr \<lparr>p_asset = ''btc'', p_id = ''1'', p_state = ''FeeAdded'',
               p_psbt = ''candidate+fee'', p_txid = None\<rparr>),
      ReadPSBT ''btc'' ''1''
        (Inr \<lparr>p_asset = ''btc'', p_id = ''1'', p_state = ''FeeAdded'',
               p_psbt = ''candidate+fee'', p_txid = None\<rparr>)] @
     Walletprocesspsbt ''candidate+fee'' True ''ALL'' True ''???''
        (Inr \<lparr>w_psbt = ''candidate+fee+sig(ALL)'', w_complete = False\<rparr>) #
     [UpdatePSBT ''btc'' ''1'' ''candidate+fee+sig(ALL)''
        (Inr \<lparr>p_asset = ''btc'', p_id = ''1'', p_state = ''Broadcast'',
               p_psbt = ''candidate+fee+sig(ALL)'', p_txid = Some ''f00d''\<rparr>),
      ReadPSBT ''btc'' ''1''
        (Inr \<lparr>p_asset = ''btc'', p_id = ''1'', p_state = ''Broadcast'',
               p_psbt = ''candidate+fee+sig(ALL)'', p_txid = Some ''f00d''\<rparr>)]"
    by (simp add: eval)
  have direct: "steps (events_of (psbtni demo (demo_faas FAAS_URL FAAS_KEY)) None) =
     [Listunspent 0 [''???''] ''???''
        (Inr [\<lparr>u_txid = ''c0ffee'', u_vout = 1, u_amount = 1 / 2\<rparr>]),
      Createpsbt [\<lparr>i_txid = ''c0ffee'', i_vout = 1\<rparr>] [(''???'', 1 / 2)] 0 True
        (Inr ''candidate'')] @
     Walletprocesspsbt ''candidate'' True ''ALL|ANYONECANPAY'' True ''???''
        (Inr \<lparr>w_psbt = ''candidate+sig(ALL|ANYONECANPAY)'', w_complete = False\<rparr>) #
     [CreatePSBTNI ''btc'' ''candidate+sig(ALL|ANYONECANPAY)''
        (Inr \<lparr>p_asset = ''btc'', p_id = ''1'', p_state = ''Broadcast'',
               p_psbt = ''candidate+sig(ALL|ANYONECANPAY)+fee'', p_txid = Some ''f00d''\<rparr>),
      ReadPSBTNI ''btc'' ''1''
        (Inr \<lparr>p_asset = ''btc'', p_id = ''1'', p_state = ''Broadcast'',
               p_psbt = ''candidate+sig(ALL|ANYONECANPAY)+fee'', p_txid = Some ''f00d''\<rparr>)]"
    by (simp add: eval)
  note sighash_by_step[of demo "demo_faas FAAS_URL FAAS_KEY" None,
      THEN conjunct1, rule_format, OF interactive, THEN conjunct1]
    sighash_by_step[of demo "demo_faas FAAS_URL FAAS_KEY" None,
      THEN conjunct2, THEN conjunct2, THEN conjunct1, rule_format, OF direct,
      THEN conjunct2, THEN conjunct1]
  with interactive direct show ?thesis by simp
qed

section \<open>Building the candidate\<close>

text \<open>
  C6. When the wallet lists at least one unspent coin, \<open>getPSBT\<close> asks it for a transaction
  with one input, the first coin listed, and one output, the whole amount of that coin to
  \<open>OUTPUT_ADDRESS\<close> (so nothing is left for a fee), locktime 0 and the replaceable flag
  set. If the wallet rejects that, \<open>getPSBT\<close> fails with the wallet's message; otherwise
  the blob goes through \<open>walletprocesspsbt\<close> with the \<open>sign\<close> flag as given (false in the
  interactive flow) and the sighash as given ("ALL" when none is), and the blob of its
  answer is returned.
\<close>

theorem getPSBT_candidate:
  assumes "listunspent (NODE_CLIENT m) 0 [OUTPUT_ADDRESS] WALLET_LABEL w = (Inr (u # us), w1)"
  shows "let inputs = [\<lparr>i_txid = u_txid u, i_vout = u_vout u\<rparr>];
             outputs = [(OUTPUT_ADDRESS, u_amount u)];
             sighashtype = (case sa of None \<Rightarrow> ''ALL'' | Some t \<Rightarrow> t);
             listed = Listunspent 0 [OUTPUT_ADDRESS] WALLET_LABEL (Inr (u # us))
         in u_amount u - sum_list (map snd outputs) = 0 \<and>
            (case createpsbt (NODE_CLIENT m) inputs outputs 0 True w1 of
               (Inl msg, w2) \<Rightarrow>
                 getPSBT m sign sa w =
                   (Inl (Error msg), [listed, Createpsbt inputs outputs 0 True (Inl msg)], w2)
             | (Inr cand, w2) \<Rightarrow>
                 (case walletprocesspsbt (NODE_CLIENT m) cand sign sighashtype True
                         WALLET_LABEL w2 of
                    (rp, w3) \<Rightarrow>
                      getPSBT m sign sa w =
                        (map_sum Error w_psbt rp,
                         [listed, Createpsbt inputs outputs 0 True (Inr cand),
                          Walletprocesspsbt cand sign sighashtype True WALLET_LABEL rp],
                         w3)))"
  using assms
  by (auto simp add: getPSBT_def step split: prod.splits sum.splits)

theorem getPSBT_candidate_witness:
  "listunspent (NODE_CLIENT demo) 0 [OUTPUT_ADDRESS] WALLET_LABEL None =
     (Inr [\<lparr>u_txid = ''c0ffee'', u_vout = 1, u_amount = 1 / 2\<rparr>], None) \<and>
   getPSBT demo False None None =
     (Inr ''candidate'',
      [Listunspent 0 [''???''] ''???''
        (Inr [\<lparr>u_txid = ''c0ffee'', u_vout = 1, u_amount = 1 / 2\<rparr>]),
      Createpsbt [\<lparr>i_txid = ''c0ffee'', i_vout = 1\<rparr>] [(''???'', 1 / 2)] 0 True
        (Inr ''candidate''),
      Walletprocesspsbt ''candidate'' False ''ALL'' True ''???''
        (Inr \<lparr>w_psbt = ''candidate'', w_complete = False\<rparr>)],
      None)"
proof -
  have listed: "listunspent (NODE_CLIENT demo) 0 [OUTPUT_ADDRESS] WALLET_LABEL None =
     (Inr [\<lparr>u_txid = ''c0ffee'', u_vout = 1, u_amount = 1 / 2\<rparr>], None)"
    by (simp add: demo_def demo_node_def)
  note getPSBT_candidate[OF listed, where sign = False and sa = None]
  with listed show ?thesis
    by (simp add: demo_def demo_node_def OUTPUT_ADDRESS_def WALLET_LABEL_def)
qed

text \<open>
  C8, as the code has it. The code has no check for an empty listing and no error of its
  own for it. \<open>getPSBT\<close> fails with the \<open>TypeError\<close> of the runtime, from reading \<open>txid\<close>
  of \<open>undefined\<close>, exactly when the wallet lists no unspent coin. In that case the
  listing is the only call made: no transaction is asked for.
\<close>

theorem getPSBT_no_coin:
  "(outcome_of (getPSBT m sign sa) w = Inl (TypeError undefined_txid)) =
     (fst (listunspent (NODE_CLIENT m) 0 [OUTPUT_ADDRESS] WALLET_LABEL w) = Inr []) \<and>
   (fst (listunspent (NODE_CLIENT m) 0 [OUTPUT_ADDRESS] WALLET_LABEL w) = Inr [] \<longrightarrow>
      events_of (getPSBT m sign sa) w =
        [Listunspent 0 [OUTPUT_ADDRESS] WALLET_LABEL (Inr [])])"
  by (auto simp add: outcome_of_def events_of_def getPSBT_def step
      split: prod.splits sum.splits list.splits)

theorem getPSBT_no_coin_witness:
  "fst (listunspent (NODE_CLIENT broke) 0 [OUTPUT_ADDRESS] WALLET_LABEL None) = Inr [] \<and>
   getPSBT broke False None None =
     (Inl (TypeError undefined_txid), [Listunspent 0 [''???''] ''???'' (Inr [])], None)"
proof -
  have empty:
    "fst (listunspent (NODE_CLIENT broke) 0 [OUTPUT_ADDRESS] WALLET_LABEL None) = Inr []"
    by (simp add: broke_def demo_def demo_node_def)
  note getPSBT_no_coin[of broke False None None, THEN conjunct2, rule_format, OF empty]
    getPSBT_no_coin[of broke False None None, THEN conjunct1, THEN iffD2, OF empty]
  with empty show ?thesis
    by (simp add: eval)
qed

text \<open>
  C8, as the spec has it, fails: with a wallet that lists no coin the error is not one
  that names the missing funds. It is the \<open>TypeError\<close> of line 55, and its message about
  \<open>undefined\<close> is what the interactive flow reports to the operator.
\<close>

theorem empty_listing_raises_type_error:
  "outcome_of (getPSBT broke False None) None =
     Inl (TypeError (''Cannot read properties of undefined (reading '' @ [CHR 0x27] @
        ''txid'' @ [CHR 0x27] @ '')'')) \<and>
   steps (events_of (psbt broke (demo_faas FAAS_URL FAAS_KEY)) None) =
     [Listunspent 0 [''???''] ''???'' (Inr []),
      ConsoleError [LStr ''PSBT failed:'',
        LMessage (TypeError (''Cannot read properties of undefined (reading '' @ [CHR 0x27] @
          ''txid'' @ [CHR 0x27] @ '')''))]]"
  by (simp add: eval undefined_txid_def)

section \<open>Invalid mode\<close>

text \<open>
  C7. When the selector is not one of the three recognised values (also when it is
  missing), \<open>run\<close> fails with the error "Invalid user choice." and has caused no event at
  all: no call to the wallet, no call to the sponsor, no \<open>Faas\<close> client constructed; the
  world is unchanged.
\<close>

theorem run_invalid_choice:
  "choice \<notin> {Some ''basic'', Some ''psbt'', Some ''psbtni''} \<Longrightarrow>
     run m choice w = (Inl (Error ''Invalid user choice.''), [], w)"
  by (simp add: run_def UserChoice_values_def throw_def)

theorem run_invalid_choice_witness:
  "Some ''none'' \<notin> {Some ''basic'', Some ''psbt'', Some ''psbtni''} \<and>
   run demo (Some ''none'') None = (Inl (Error ''Invalid user choice.''), [], None)"
  using run_invalid_choice[of "Some ''none''" demo None] by simp

section \<open>What the checks compare\<close>



section \<open>Ids and blobs in the interactive flow\<close>

text \<open>
  C10, as the code has it. Every read uses the asset and id of the sponsor's answer just
  before it: the first read those of the answer of \<open>createPSBT\<close>, the final read those of
  the answer of \<open>updatePSBT\<close>. The resubmission uses \<open>ASSET_BTC\<close> and the id of the answer
  of \<open>createPSBT\<close>, and its blob is what the wallet returned when it signed the blob of
  that answer with "ALL".
\<close>

theorem psbt_ids_and_blobs:
  "(\<forall>pre a i rp post.
      steps (events_of (psbt m faas) w) = pre @ ReadPSBT a i rp # post \<longrightarrow>
      (\<exists>pre' orig fee. pre = pre' @ [CreatePSBT (ASSET_BTC m) orig (Inr fee)] \<and>
         a = p_asset fee \<and> i = p_id fee) \<or>
      (\<exists>pre' orig fee b bc. pre = pre' @ [UpdatePSBT (ASSET_BTC m) (p_id fee) b (Inr bc)] \<and>
         CreatePSBT (ASSET_BTC m) orig (Inr fee) \<in> set pre' \<and>
         a = p_asset bc \<and> i = p_id bc)) \<and>
   (\<forall>a i b rp. UpdatePSBT a i b rp \<in> set (steps (events_of (psbt m faas) w)) \<longrightarrow>
      (\<exists>orig fee p.
         CreatePSBT (ASSET_BTC m) orig (Inr fee) \<in> set (steps (events_of (psbt m faas) w)) \<and>
         Walletprocesspsbt (p_psbt fee) True ''ALL'' True WALLET_LABEL (Inr p)
           \<in> set (steps (events_of (psbt m faas) w)) \<and>
         a = ASSET_BTC m \<and> i = p_id fee \<and> b = w_psbt p))"
proof (rule conjI; intro allI impI)
  fix pre a i rp post
  assume "steps (events_of (psbt m faas) w) = pre @ ReadPSBT a i rp # post"
  then show "(\<exists>pre' orig fee. pre = pre' @ [CreatePSBT (ASSET_BTC m) orig (Inr fee)] \<and>
         a = p_asset fee \<and> i = p_id fee) \<or>
      (\<exists>pre' orig fee b bc. pre = pre' @ [UpdatePSBT (ASSET_BTC m) (p_id fee) b (Inr bc)] \<and>
         CreatePSBT (ASSET_BTC m) orig (Inr fee) \<in> set pre' \<and>
         a = p_asset bc \<and> i = p_id bc)"
    by (rule psbt_read_args)
next
  fix a i b rp
  assume "UpdatePSBT a i b rp \<in> set (steps (events_of (psbt m faas) w))"
  then show "\<exists>orig fee p.
         CreatePSBT (ASSET_BTC m) orig (Inr fee) \<in> set (steps (events_of (psbt m faas) w)) \<and>
         Walletprocesspsbt (p_psbt fee) True ''ALL'' True WALLET_LABEL (Inr p)
           \<in> set (steps (events_of (psbt m faas) w)) \<and>
         a = ASSET_BTC m \<and> i = p_id fee \<and> b = w_psbt p"
    by (rule psbt_update_args)
qed

theorem psbt_ids_and_blobs_witness:
  "steps (events_of (psbt demo (demo_faas FAAS_URL FAAS_KEY)) None) =
     [Listunspent 0 [''???''] ''???''
        (Inr [\<lparr>u_txid = ''c0ffee'', u_vout = 1, u_amount = 1 / 2\<rparr>]),
      Createpsbt [\<lparr>i_txid = ''c0ffee'', i_vout = 1\<rparr>] [(''???'', 1 / 2)] 0 True
        (Inr ''candidate''),
      Walletprocesspsbt ''candidate'' False ''ALL'' True ''???''
        (Inr \<lparr>w_psbt = ''candidate'', w_complete = False\<rparr>),
      CreatePSBT ''btc'' ''candidate''
        (Inr \<lparr>p_asset = ''btc'', p_id = ''1'', p_state = ''FeeAdded'',
               p_psbt = ''candidate+fee'', p_txid = None\<rparr>),
      ReadPSBT ''btc'' ''1''
        (Inr \<lparr>p_asset = ''btc'', p_id = ''1'', p_state = ''FeeAdded'',
               p_psbt = ''candidate+fee'', p_txid = None\<rparr>),
      Walletprocesspsbt ''candidate+fee'' True ''ALL'' True ''???''
        (Inr \<lparr>w_psbt = ''candidate+fee+sig(ALL)'', w_complete = False\<rparr>),
      UpdatePSBT ''btc'' ''1'' ''candidate+fee+sig(ALL)''
        (Inr \<lparr>p_asset = ''btc'', p_id = ''1'', p_state = ''Broadcast'',
               p_psbt = ''candidate+fee+sig(ALL)'', p_txid = Some ''f00d''\<rparr>)] @
     ReadPSBT ''btc'' ''1''
        (Inr \<lparr>p_asset = ''btc'', p_id = ''1'', p_state = ''Broadcast'',
               p_psbt = ''candidate+fee+sig(ALL)'', p_txid = Some ''f00d''\<rparr>) # [] \<and>
   UpdatePSBT ''btc'' ''1'' ''candidate+fee+sig(ALL)''
        (Inr \<lparr>p_asset = ''btc'', p_id = ''1'', p_state = ''Broadcast'',
               p_psbt = ''candidate+fee+sig(ALL)'', p_txid = Some ''f00d''\<rparr>)
     \<in> set (steps (events_of (psbt demo (demo_faas FAAS_URL FAAS_KEY)) None))"
proof -
  have run: "steps (events_of (psbt demo (demo_faas FAAS_URL FAAS_KEY)) None) =
     [Listunspent 0 [''???''] ''???''
        (Inr [\<lparr>u_txid = ''c0ffee'', u_vout = 1, u_amount = 1 / 2\<rparr>]),
      Createpsbt [\<lparr>i_txid = ''c0ffee'', i_vout = 1\<rparr>] [(''???'', 1 / 2)] 0 True
        (Inr ''candidate''),
      Walletprocesspsbt ''candidate'' False ''ALL'' True ''???''
        (Inr \<lparr>w_psbt = ''candidate'', w_complete = False\<rparr>),
      CreatePSBT ''btc'' ''candidate''
        (Inr \<lparr>p_asset = ''btc'', p_id = ''1'', p_state = ''FeeAdded'',
               p_psbt = ''candidate+fee'', p_txid = None\<rparr>),
      ReadPSBT ''btc'' ''1''
        (Inr \<lparr>p_asset = ''btc'', p_id = ''1'', p_state = ''FeeAdded'',
               p_psbt = ''candidate+fee'', p_txid = None\<rparr>),
      Walletprocesspsbt ''candidate+fee'' True ''ALL'' True ''???''
        (Inr \<lparr>w_psbt = ''candidate+fee+sig(ALL)'', w_complete = False\<rparr>),
      UpdatePSBT ''btc'' ''1'' ''candidate+fee+sig(ALL)''
        (Inr \<lparr>p_asset = ''btc'', p_id = ''1'', p_state = ''Broadcast'',
               p_psbt = ''candidate+fee+sig(ALL)'', p_txid = Some ''f00d''\<rparr>)] @
     ReadPSBT ''btc'' ''1''
        (Inr \<lparr>p_asset = ''btc'', p_id = ''1'', p_state = ''Broadcast'',
               p_psbt = ''candidate+fee+sig(ALL)'', p_txid = Some ''f00d''\<rparr>) # []"
    by (simp add: eval)
  have resubmitted: "UpdatePSBT ''btc'' ''1'' ''candidate+fee+sig(ALL)''
        (Inr \<lparr>p_asset = ''btc'', p_id = ''1'', p_state = ''Broadcast'',
               p_psbt = ''candidate+fee+sig(ALL)'', p_txid = Some ''f00d''\<rparr>)
     \<in> set (steps (events_of (psbt demo (demo_faas FAAS_URL FAAS_KEY)) None))"
    by (simp add: eval)
  show ?thesis
    using psbt_ids_and_blobs[of demo "demo_faas FAAS_URL FAAS_KEY" None,
        THEN conjunct1, rule_format, OF run]
      psbt_ids_and_blobs[of demo "demo_faas FAAS_URL FAAS_KEY" None,
        THEN conjunct2, rule_format, OF resubmitted]
    by (intro conjI) (rule run, rule resubmitted)
qed

text \<open>
  C10, as the spec has it, fails for the final read: with a sponsor that answers
  \<open>updatePSBT\<close> with a record under the id "2", the final read asks for id "2", not for
  the id "1" that \<open>createPSBT\<close> returned.
\<close>

theorem final_read_uses_update_id:
  "steps (events_of (psbt renumbering (renumbering_faas FAAS_URL FAAS_KEY)) None) =
     [Listunspent 0 [''???''] ''???''
        (Inr [\<lparr>u_txid = ''c0ffee'', u_vout = 1, u_amount = 1 / 2\<rparr>]),
      Createpsbt [\<lparr>i_txid = ''c0ffee'', i_vout = 1\<rparr>] [(''???'', 1 / 2)] 0 True
        (Inr ''candidate''),
      Walletprocesspsbt ''candidate'' False ''ALL'' True ''???''
        (Inr \<lparr>w_psbt = ''candidate'', w_complete = False\<rparr>),
      CreatePSBT ''btc'' ''candidate''
        (Inr \<lparr>p_asset = ''btc'', p_id = ''1'', p_state = ''FeeAdded'',
               p_psbt = ''candidate+fee'', p_txid = None\<rparr>),
      ReadPSBT ''btc'' ''1''
        (Inr \<lparr>p_asset = ''btc'', p_id = ''1'', p_state = ''FeeAdded'',
               p_psbt = ''candidate+fee'', p_txid = None\<rparr>),
      Walletprocesspsbt ''candidate+fee'' True ''ALL'' True ''???''
        (Inr \<lparr>w_psbt = ''candidate+fee+sig(ALL)'', w_complete = False\<rparr>),
      UpdatePSBT ''btc'' ''1'' ''candidate+fee+sig(ALL)''
        (Inr \<lparr>p_asset = ''btc'', p_id = ''2'', p_state = ''Broadcast'',
               p_psbt = ''candidate+fee+sig(ALL)'', p_txid = Some ''f00d''\<rparr>),
      ReadPSBT ''btc'' ''2''
        (Inr \<lparr>p_asset = ''btc'', p_id = ''2'', p_state = ''Broadcast'',
               p_psbt = ''candidate+fee+sig(ALL)'', p_txid = Some ''f00d''\<rparr>)]"
  by (simp add: eval)

end
